theory Spec2Isabelle
  imports Main
begin

section \<open>Failures\<close>

text \<open>
  Every exception the modelled Python code can raise is a value of one datatype.
  A method that mutates its object and may raise returns the object as it stands
  when the method ends, together with either the exception or the returned value.
\<close>

datatype error =
    UninitializedEmbedding
      \<comment> \<open>\<^verbatim>\<open>Exception("Embedding is not initialized.")\<close>\<close>
  | AssertionError string
  | TypeError
      \<comment> \<open>\<^verbatim>\<open>len(None)\<close>, iterating a zero-dimensional array, or numpy
          arithmetic on an operand it does not accept\<close>
  | ValueError
      \<comment> \<open>unpacking an item with more than two fields into \<^verbatim>\<open>x, y\<close>;
          numpy arithmetic on shapes that do not fit\<close>
  | UnboundLocalError
      \<comment> \<open>reading a local variable that no branch assigned\<close>
  | IndexError
  | Raised string
      \<comment> \<open>an exception raised by an external collaborator, propagated unchanged\<close>

section \<open>TransformDataset\<close>

text \<open>
  The base dataset is an indexable sequence of items. An item is an input, a label
  and the fields that follow them (metadata), so that
  \<^verbatim>\<open>x, y = self.dataset[item]\<close> fails on an item with extra fields and
  \<^verbatim>\<open>self.dataset[item][:2]\<close> drops them. Transforms are optional unary
  functions; \<^verbatim>\<open>if self.__transform:\<close> tests for an absent one.
\<close>

type_synonym ('x, 'y, 'm) item = "'x \<times> 'y \<times> 'm list"

record ('x, 'y, 'm) TransformDataset =
  dataset :: "('x, 'y, 'm) item list"
  transform :: "('x \<Rightarrow> 'x) option"
  strong_transform :: "('x \<Rightarrow> 'x) option"
  target_transform :: "('y \<Rightarrow> 'y) option"
  default_transform :: "('x \<Rightarrow> 'x) option"
  default_target_transform :: "('y \<Rightarrow> 'y) option"
  ignore_metadata :: bool
  return_indices :: bool

text \<open>The input a read returns: the weak view, or the pair (weak view, strong view).\<close>

datatype 'x view = Weak 'x | WeakStrong 'x 'x

definition TransformDataset_init ::
  "('x, 'y, 'm) item list \<Rightarrow> ('x \<Rightarrow> 'x) option \<Rightarrow> ('y \<Rightarrow> 'y) option \<Rightarrow> bool
    \<Rightarrow> ('x, 'y, 'm) TransformDataset" where
  "TransformDataset_init ds t tt im =
     \<lparr>dataset = ds, transform = t, strong_transform = None, target_transform = tt,
      default_transform = t, default_target_transform = tt,
      ignore_metadata = im, return_indices = False\<rparr>"

definition TransformDataset_len :: "('x, 'y, 'm) TransformDataset \<Rightarrow> nat" where
  "TransformDataset_len w = length (dataset w)"

text \<open>
  \<^verbatim>\<open>self.dataset[item]\<close> followed by the unpacking into \<^verbatim>\<open>(x_orig, y)\<close>.
\<close>

definition read_item ::
  "('x, 'y, 'm) item list \<Rightarrow> bool \<Rightarrow> nat \<Rightarrow> error + ('x \<times> 'y)" where
  "read_item ds im i =
     (if i < length ds then
        (case ds ! i of (x, y, extra) \<Rightarrow>
           if im \<or> extra = [] then Inr (x, y) else Inl ValueError)
      else Inl IndexError)"

text \<open>
  \<^verbatim>\<open>TransformDataset.__getitem__\<close> of LabelBench. The local \<^verbatim>\<open>x\<close> is
  assigned only under \<^verbatim>\<open>if self.__transform:\<close>; it is \<open>None\<close> here while
  unassigned, and reading it then raises \<^verbatim>\<open>UnboundLocalError\<close>.
\<close>

definition TransformDataset_getitem ::
  "('x, 'y, 'm) TransformDataset \<Rightarrow> nat \<Rightarrow> error + ('x view \<times> 'y \<times> nat option)" where
  "TransformDataset_getitem w i =
     (case read_item (dataset w) (ignore_metadata w) i of
        Inl e \<Rightarrow> Inl e
      | Inr (x_orig, y0) \<Rightarrow>
          let x = (case transform w of Some f \<Rightarrow> Some (f x_orig) | None \<Rightarrow> None);
              y = (case target_transform w of Some g \<Rightarrow> g y0 | None \<Rightarrow> y0);
              x' = (case strong_transform w of
                      Some h \<Rightarrow>
                        (let xs = h x_orig in
                         case x of Some xw \<Rightarrow> Inr (WeakStrong xw xs)
                                 | None \<Rightarrow> Inl UnboundLocalError)
                    | None \<Rightarrow>
                        (case x of Some xw \<Rightarrow> Inr (Weak xw)
                                 | None \<Rightarrow> Inl UnboundLocalError))
          in (case x' of
                Inl e \<Rightarrow> Inl e
              | Inr v \<Rightarrow> Inr (v, y, if return_indices w then Some i else None)))"

definition get_transform ::
  "('x, 'y, 'm) TransformDataset \<Rightarrow> ('x \<Rightarrow> 'x) option" where
  "get_transform w = transform w"

definition set_transform ::
  "('x \<Rightarrow> 'x) option \<Rightarrow> ('x, 'y, 'm) TransformDataset \<Rightarrow> ('x, 'y, 'm) TransformDataset" where
  "set_transform t w = w\<lparr>transform := t\<rparr>"

definition set_strong_transform ::
  "('x \<Rightarrow> 'x) option \<Rightarrow> ('x, 'y, 'm) TransformDataset \<Rightarrow> ('x, 'y, 'm) TransformDataset" where
  "set_strong_transform t w = w\<lparr>strong_transform := t\<rparr>"

definition set_target_transform ::
  "('y \<Rightarrow> 'y) option \<Rightarrow> ('x, 'y, 'm) TransformDataset \<Rightarrow> ('x, 'y, 'm) TransformDataset" where
  "set_target_transform t w = w\<lparr>target_transform := t\<rparr>"

definition set_to_default_transform ::
  "('x, 'y, 'm) TransformDataset \<Rightarrow> ('x, 'y, 'm) TransformDataset" where
  "set_to_default_transform w = w\<lparr>transform := default_transform w\<rparr>"

definition set_to_default_target_transform ::
  "('x, 'y, 'm) TransformDataset \<Rightarrow> ('x, 'y, 'm) TransformDataset" where
  "set_to_default_target_transform w = w\<lparr>target_transform := default_target_transform w\<rparr>"

definition set_return_indices ::
  "bool \<Rightarrow> ('x, 'y, 'm) TransformDataset \<Rightarrow> ('x, 'y, 'm) TransformDataset" where
  "set_return_indices b w = w\<lparr>return_indices := b\<rparr>"

subsection \<open>The older copy under ALBench\<close>

text \<open>
  ALBench's \<^verbatim>\<open>TransformDataset\<close> has no strong transform and no index flag, and
  its \<^verbatim>\<open>__getitem__\<close> binds \<^verbatim>\<open>x\<close> to the item's input before any
  transform is applied.
\<close>

record ('x, 'y, 'm) TransformDataset_ALBench =
  al_dataset :: "('x, 'y, 'm) item list"
  al_transform :: "('x \<Rightarrow> 'x) option"
  al_target_transform :: "('y \<Rightarrow> 'y) option"
  al_default_transform :: "('x \<Rightarrow> 'x) option"
  al_default_target_transform :: "('y \<Rightarrow> 'y) option"
  al_ignore_metadata :: bool
  al_transform_seed :: int

definition TransformDataset_ALBench_init ::
  "('x, 'y, 'm) item list \<Rightarrow> ('x \<Rightarrow> 'x) option \<Rightarrow> ('y \<Rightarrow> 'y) option \<Rightarrow> bool
    \<Rightarrow> ('x, 'y, 'm) TransformDataset_ALBench" where
  "TransformDataset_ALBench_init ds t tt im =
     \<lparr>al_dataset = ds, al_transform = t, al_target_transform = tt,
      al_default_transform = t, al_default_target_transform = tt,
      al_ignore_metadata = im, al_transform_seed = 42\<rparr>"

definition getitem_ALBench ::
  "('x, 'y, 'm) TransformDataset_ALBench \<Rightarrow> nat \<Rightarrow> error + ('x \<times> 'y)" where
  "getitem_ALBench w i =
     (case read_item (al_dataset w) (al_ignore_metadata w) i of
        Inl e \<Rightarrow> Inl e
      | Inr (x0, y0) \<Rightarrow>
          let x = (case al_transform w of Some f \<Rightarrow> f x0 | None \<Rightarrow> x0);
              y = (case al_target_transform w of Some g \<Rightarrow> g y0 | None \<Rightarrow> y0)
          in Inr (x, y))"

definition set_transform_ALBench ::
  "('x \<Rightarrow> 'x) option \<Rightarrow> ('x, 'y, 'm) TransformDataset_ALBench
    \<Rightarrow> ('x, 'y, 'm) TransformDataset_ALBench" where
  "set_transform_ALBench t w = w\<lparr>al_transform := t\<rparr>"

definition set_target_transform_ALBench ::
  "('y \<Rightarrow> 'y) option \<Rightarrow> ('x, 'y, 'm) TransformDataset_ALBench
    \<Rightarrow> ('x, 'y, 'm) TransformDataset_ALBench" where
  "set_target_transform_ALBench t w = w\<lparr>al_target_transform := t\<rparr>"

definition set_to_default_transform_ALBench ::
  "('x, 'y, 'm) TransformDataset_ALBench \<Rightarrow> ('x, 'y, 'm) TransformDataset_ALBench" where
  "set_to_default_transform_ALBench w = w\<lparr>al_transform := al_default_transform w\<rparr>"

definition set_to_default_target_transform_ALBench ::
  "('x, 'y, 'm) TransformDataset_ALBench \<Rightarrow> ('x, 'y, 'm) TransformDataset_ALBench" where
  "set_to_default_target_transform_ALBench w =
     w\<lparr>al_target_transform := al_default_target_transform w\<rparr>"

section \<open>DatasetOnMemory\<close>

text \<open>
  An embedding matrix is the list of its rows; \<open>'v\<close> is the type of a row (one
  feature vector). The inputs of an in-memory dataset are one matrix, a Python
  tuple of two matrices (weak and strong view), or the single array of higher
  rank that numpy builds when arithmetic is applied to such a tuple: a list of
  matrices.
\<close>

datatype 'v inputs = Flat "'v list" | Pair "'v list" "'v list" | Stacked "'v list list"

record ('v, 'l) DatasetOnMemory =
  dom_X :: "'v inputs"
  dom_y :: "'l list"
  dom_n_class :: int
  dom_return_indices :: bool

text \<open>
  The condition that \<^verbatim>\<open>DatasetOnMemory.__init__\<close> of LabelBench asserts:
  \<^verbatim>\<open>len(X[0]) == len(y) and len(X[1]) == len(y)\<close> when \<^verbatim>\<open>X\<close> is a tuple,
  \<^verbatim>\<open>len(X) == len(y)\<close> otherwise.
\<close>

definition same_length :: "'v inputs \<Rightarrow> 'l list \<Rightarrow> bool" where
  "same_length X ys =
     (case X of
        Pair a b \<Rightarrow> length a = length ys \<and> length b = length ys
      | Flat a \<Rightarrow> length a = length ys
      | Stacked c \<Rightarrow> length c = length ys)"

text \<open>
  \<^verbatim>\<open>DatasetOnMemory.__init__\<close> of LabelBench. The labels it receives may be
  \<^verbatim>\<open>None\<close> (the constructor of \<^verbatim>\<open>ALDataset\<close> documents them as optional);
  \<^verbatim>\<open>len(None)\<close> raises \<^verbatim>\<open>TypeError\<close> inside the assertion's condition.
\<close>

definition DatasetOnMemory_init ::
  "'v inputs \<Rightarrow> 'l list option \<Rightarrow> int \<Rightarrow> error + ('v, 'l) DatasetOnMemory" where
  "DatasetOnMemory_init X y n =
     (case y of
        None \<Rightarrow> Inl TypeError
      | Some ys \<Rightarrow>
          if same_length X ys
          then Inr \<lparr>dom_X = X, dom_y = ys, dom_n_class = n, dom_return_indices = False\<rparr>
          else Inl (AssertionError ''X and y must have the same length.''))"

definition DatasetOnMemory_len :: "('v, 'l) DatasetOnMemory \<Rightarrow> nat" where
  "DatasetOnMemory_len d = length (dom_y d)"

definition get_labels :: "('v, 'l) DatasetOnMemory \<Rightarrow> 'l list" where
  "get_labels d = dom_y d"

section \<open>ALDataset\<close>

datatype LabelType = MULTI_CLASS | MULTI_LABEL

datatype split = Train | Val | Test

text \<open>
  What a feature extractor returns for one split and what the \<^verbatim>\<open>*_emb\<close>
  attributes hold once set: one matrix, or a tuple of two.
\<close>

datatype 'v emb = Single "'v list" | Paired "'v list" "'v list"

text \<open>
  The fields tested with \<^verbatim>\<open>callable(...)\<close>. A normalization statistic is a
  reducer still to be applied to the training embedding
  (\<^verbatim>\<open>np.mean\<close>, \<^verbatim>\<open>np.std\<close> with \<^verbatim>\<open>axis=0\<close>) or the
  statistic itself; labels are absent, an array, or a producer without arguments.
  A reducer and a producer are functions: one that is called returns, a statistic
  respectively an array; a callable that raises is not represented.
\<close>

datatype ('v, 's) stat = Reducer "'v list \<Rightarrow> 's" | Stat 's

datatype 'l labels = NoLabels | Labels "'l list" | Producer "unit \<Rightarrow> 'l list"

text \<open>
  The attributes of an \<^verbatim>\<open>ALDataset\<close>; the name-mangled private ones carry the
  prefix \<open>p_\<close>. The type \<open>'t\<close> is what the attribute \<^verbatim>\<open>__labeled_idxs\<close> holds
  when it is not \<^verbatim>\<open>None\<close>: the array's contents where only values matter, a
  reference into a store of arrays where aliasing matters. The attribute
  \<^verbatim>\<open>feature_extractor\<close> is set to \<^verbatim>\<open>None\<close> and never read.
\<close>

record ('x, 'y, 'm, 'v, 's, 'l, 't) ALDataset =
  train_dataset :: "('x, 'y, 'm) TransformDataset"
  val_dataset :: "('x, 'y, 'm) TransformDataset"
  test_dataset :: "('x, 'y, 'm) TransformDataset"
  label_type :: LabelType
  num_classes :: int
  train_emb :: "'v emb option"
  val_emb :: "'v emb option"
  test_emb :: "'v emb option"
  p_train_emb_mean :: "('v, 's) stat"
  p_train_emb_std :: "('v, 's) stat"
  p_labeled_idxs :: "'t option"
  p_train_labels :: "'l labels"
  p_val_labels :: "'l labels"
  p_test_labels :: "'l labels"
  classnames :: "string list"

definition ALDataset_init ::
  "('x, 'y, 'm) TransformDataset \<Rightarrow> ('x, 'y, 'm) TransformDataset
    \<Rightarrow> ('x, 'y, 'm) TransformDataset \<Rightarrow> 'l labels \<Rightarrow> 'l labels \<Rightarrow> 'l labels
    \<Rightarrow> LabelType \<Rightarrow> int \<Rightarrow> string list \<Rightarrow> ('v, 's) stat \<Rightarrow> ('v, 's) stat
    \<Rightarrow> ('x, 'y, 'm, 'v, 's, 'l, 't) ALDataset" where
  "ALDataset_init tr va te trl val tel lt nc names mean std =
     \<lparr>train_dataset = tr, val_dataset = va, test_dataset = te, label_type = lt,
      num_classes = nc, train_emb = None, val_emb = None, test_emb = None,
      p_train_emb_mean = mean, p_train_emb_std = std, p_labeled_idxs = None,
      p_train_labels = trl, p_val_labels = val, p_test_labels = tel,
      classnames = names\<rparr>"

subsection \<open>update_embedding_dataset\<close>

text \<open>
  The class \<^verbatim>\<open>FeatureExtractor\<close> lives in another module,
  \<^verbatim>\<open>LabelBench.dataset.feature_extractor\<close>. Its method
  \<^verbatim>\<open>get_feature(dataset, dataset_split, epoch, use_strong)\<close> is a parameter
  here: a function that returns an embedding, a matrix or a pair of matrices, or
  raises. It acts on the \<^verbatim>\<open>ALDataset\<close> through its result only.
\<close>

type_synonym ('x, 'y, 'm, 'v) get_feature =
  "('x, 'y, 'm) TransformDataset \<Rightarrow> split \<Rightarrow> int \<Rightarrow> bool \<Rightarrow> error + 'v emb"

text \<open>\<^verbatim>\<open>getattr(self, dataset_split + "_dataset")\<close>\<close>

fun getattr_dataset ::
  "split \<Rightarrow> ('x, 'y, 'm, 'v, 's, 'l, 't) ALDataset \<Rightarrow> ('x, 'y, 'm) TransformDataset" where
  "getattr_dataset Train s = train_dataset s"
| "getattr_dataset Val s = val_dataset s"
| "getattr_dataset Test s = test_dataset s"

text \<open>\<^verbatim>\<open>setattr(self, dataset_split + "_emb", feat_emb)\<close>\<close>

fun setattr_emb ::
  "split \<Rightarrow> 'v emb \<Rightarrow> ('x, 'y, 'm, 'v, 's, 'l, 't) ALDataset
    \<Rightarrow> ('x, 'y, 'm, 'v, 's, 'l, 't) ALDataset" where
  "setattr_emb Train e s = s\<lparr>train_emb := Some e\<rparr>"
| "setattr_emb Val e s = s\<lparr>val_emb := Some e\<rparr>"
| "setattr_emb Test e s = s\<lparr>test_emb := Some e\<rparr>"

text \<open>
  The loop over the splits. It stops at the first split on which the extractor
  raises; the result is the object as the loop left it and the exception, if any.
\<close>

fun update_splits ::
  "('x, 'y, 'm, 'v) get_feature \<Rightarrow> int \<Rightarrow> bool \<Rightarrow> split list
    \<Rightarrow> ('x, 'y, 'm, 'v, 's, 'l, 't) ALDataset
    \<Rightarrow> ('x, 'y, 'm, 'v, 's, 'l, 't) ALDataset \<times> error option" where
  "update_splits gf epoch use_strong [] s = (s, None)"
| "update_splits gf epoch use_strong (sp # sps) s =
     (case gf (getattr_dataset sp s) sp epoch use_strong of
        Inl e \<Rightarrow> (s, Some e)
      | Inr feat_emb \<Rightarrow> update_splits gf epoch use_strong sps (setattr_emb sp feat_emb s))"

definition update_embedding_dataset ::
  "int \<Rightarrow> ('x, 'y, 'm, 'v) get_feature \<Rightarrow> bool
    \<Rightarrow> ('x, 'y, 'm, 'v, 's, 'l, 't) ALDataset
    \<Rightarrow> ('x, 'y, 'm, 'v, 's, 'l, 't) ALDataset \<times> error option" where
  "update_embedding_dataset epoch gf use_strong s =
     update_splits gf epoch use_strong [Train, Val, Test] s"

subsection \<open>update_labeled_idxs and the readers of the tracker\<close>

text \<open>
  The element types numpy gives to arrays built from Python integers, where its
  default integer has 64 bits. A Python integer that fits a signed 64-bit integer
  is an \<^verbatim>\<open>int64\<close>, a larger one below \<open>2\<^sup>6\<^sup>4\<close> is a
  \<^verbatim>\<open>uint64\<close>, any other is kept as an object.
\<close>

datatype dtype = Int64 | UInt64 | Float64 | Object

definition fits_int64 :: "int \<Rightarrow> bool" where
  "fits_int64 x = (- (2 ^ 63) \<le> x \<and> x < 2 ^ 63)"

definition elem_dtype :: "int \<Rightarrow> dtype" where
  "elem_dtype x =
     (if fits_int64 x then Int64
      else if 2 ^ 63 \<le> x \<and> x < 2 ^ 64 then UInt64
      else Object)"

text \<open>
  The common type of two element types: \<^verbatim>\<open>int64\<close> and \<^verbatim>\<open>uint64\<close> have no
  common integer type and meet in \<^verbatim>\<open>float64\<close>; anything with objects is objects.
\<close>

definition promote :: "dtype \<Rightarrow> dtype \<Rightarrow> dtype" where
  "promote a b =
     (if a = b then a else if a = Object \<or> b = Object then Object else Float64)"

text \<open>
  The conversion of an integer to \<^verbatim>\<open>float64\<close>: 53 significant bits, rounding to
  nearest, ties to even. \<open>f64_shift a\<close> is the number of low bits that do not fit,
  for \<open>0 \<le> a < 2\<^sup>6\<^sup>4\<close> (larger integers are objects and are never converted).
\<close>

definition f64_shift :: "int \<Rightarrow> nat" where
  "f64_shift a = length (filter (\<lambda>k. 2 ^ (53 + k) \<le> a) [0 ..< 11])"

definition round_f64 :: "int \<Rightarrow> int" where
  "round_f64 x =
     (let a = \<bar>x\<bar>; e = f64_shift a; q = a div 2 ^ e; r = a mod 2 ^ e;
          q' = (if 2 ^ e < 2 * r \<or> (2 * r = 2 ^ e \<and> odd q) then q + 1 else q)
      in sgn x * (q' * 2 ^ e))"

text \<open>The value an element has after conversion to an element type.\<close>

definition cast :: "dtype \<Rightarrow> int \<Rightarrow> int" where
  "cast d x = (if d = Float64 then round_f64 x else x)"

text \<open>
  A one-dimensional array: its element type and the values of its elements. An
  array as the methods return it is one-dimensional, or the zero-dimensional
  object array that \<^verbatim>\<open>np.array(None)\<close> builds.
\<close>

type_synonym array1d = "dtype \<times> int list"

datatype idx_array = Array0d_None | Array1d dtype "int list"

text \<open>
  \<^verbatim>\<open>np.array(xs)\<close> for a list of Python integers: the element type is the
  common type of the elements, \<^verbatim>\<open>float64\<close> for the empty list.
\<close>

definition list_dtype :: "int list \<Rightarrow> dtype" where
  "list_dtype xs =
     (case xs of [] \<Rightarrow> Float64 | x # ys \<Rightarrow> foldl promote (elem_dtype x) (map elem_dtype ys))"

definition np_array_list :: "int list \<Rightarrow> array1d" where
  "np_array_list xs = (let d = list_dtype xs in (d, map (cast d) xs))"

text \<open>\<^verbatim>\<open>np.concatenate((a, b))\<close> of two one-dimensional arrays.\<close>

definition np_concatenate1 :: "array1d \<Rightarrow> array1d \<Rightarrow> array1d" where
  "np_concatenate1 a b =
     (let d = promote (fst a) (fst b) in (d, map (cast d) (snd a) @ map (cast d) (snd b)))"

text \<open>
  \<^verbatim>\<open>np.array(v)\<close> for \<open>v\<close> either \<^verbatim>\<open>None\<close> or a one-dimensional array: a
  copy of the array, with its element type.
\<close>

definition np_array :: "array1d option \<Rightarrow> idx_array" where
  "np_array v = (case v of None \<Rightarrow> Array0d_None | Some (d, xs) \<Rightarrow> Array1d d xs)"

text \<open>
  \<^verbatim>\<open>list(a)\<close>: iterating a zero-dimensional array raises \<^verbatim>\<open>TypeError\<close>. The
  elements of the list are numpy scalars, which are equal to, and hash as, the
  Python integers of the same value.
\<close>

definition py_list :: "idx_array \<Rightarrow> error + int list" where
  "py_list a = (case a of Array0d_None \<Rightarrow> Inl TypeError | Array1d d xs \<Rightarrow> Inr xs)"

text \<open>
  Here the tracker is held by value: \<^verbatim>\<open>np.array(new_idxs)\<close> and
  \<^verbatim>\<open>np.concatenate\<close> build new arrays, whose element type and contents are
  all that is kept.
\<close>

definition update_labeled_idxs ::
  "int list \<Rightarrow> ('x, 'y, 'm, 'v, 's, 'l, array1d) ALDataset
    \<Rightarrow> ('x, 'y, 'm, 'v, 's, 'l, array1d) ALDataset" where
  "update_labeled_idxs new_idxs s =
     (case p_labeled_idxs s of
        None \<Rightarrow> s\<lparr>p_labeled_idxs := Some (np_array_list new_idxs)\<rparr>
      | Some old \<Rightarrow>
          s\<lparr>p_labeled_idxs := Some (np_concatenate1 old (np_array_list new_idxs))\<rparr>)"

definition ALDataset_len :: "('x, 'y, 'm, 'v, 's, 'l, 't) ALDataset \<Rightarrow> nat" where
  "ALDataset_len s = TransformDataset_len (train_dataset s)"

definition num_labeled ::
  "('x, 'y, 'm, 'v, 's, 'l, array1d) ALDataset \<Rightarrow> error + nat" where
  "num_labeled s =
     (case p_labeled_idxs s of
        None \<Rightarrow> Inl TypeError
      | Some a \<Rightarrow> Inr (length (snd a)))"

definition labeled_idxs ::
  "('x, 'y, 'm, 'v, 's, 'l, array1d) ALDataset \<Rightarrow> error + idx_array" where
  "labeled_idxs s = Inr (np_array (p_labeled_idxs s))"

text \<open>
  The array \<^verbatim>\<open>np.array(list(all_set - labeled_set))\<close>: its elements come from
  \<^verbatim>\<open>range(len(self))\<close>, and \<^verbatim>\<open>len\<close> is below \<open>2\<^sup>6\<^sup>3\<close>, so they are
  \<^verbatim>\<open>int64\<close>; the empty array is \<^verbatim>\<open>float64\<close>.
\<close>

definition range_array :: "int list \<Rightarrow> idx_array" where
  "range_array ys = Array1d (if ys = [] then Float64 else Int64) ys"

text \<open>
  \<^verbatim>\<open>unlabeled_idxs\<close>. Python leaves the order in which a set is listed
  unspecified; the model lists the difference in ascending order.
\<close>

definition unlabeled_idxs ::
  "('x, 'y, 'm, 'v, 's, 'l, array1d) ALDataset \<Rightarrow> error + idx_array" where
  "unlabeled_idxs s =
     (case labeled_idxs s of
        Inl e \<Rightarrow> Inl e
      | Inr a \<Rightarrow>
          (case py_list a of
             Inl e \<Rightarrow> Inl e
           | Inr labeled \<Rightarrow>
               Inr (range_array (filter (\<lambda>i. i \<notin> set labeled)
                                        (map int [0 ..< ALDataset_len s])))))"

subsection \<open>get_embedding_datasets\<close>

text \<open>The first component of a paired embedding, the embedding itself otherwise.\<close>

definition first_view :: "'v emb \<Rightarrow> 'v list" where
  "first_view e = (case e of Single a \<Rightarrow> a | Paired a b \<Rightarrow> a)"

text \<open>
  \<^verbatim>\<open>if callable(self.__train_labels): self.__train_labels = self.__train_labels()\<close>
\<close>

definition realize_labels :: "'l labels \<Rightarrow> 'l labels" where
  "realize_labels l = (case l of Producer f \<Rightarrow> Labels (f ()) | _ \<Rightarrow> l)"

text \<open>
  The value of a statistic after the \<^verbatim>\<open>callable\<close> test: a reducer is applied to
  the training embedding (its first component when it is a tuple), a value is kept.
\<close>

definition realize_stat :: "('v, 's) stat \<Rightarrow> 'v emb \<Rightarrow> 's" where
  "realize_stat st e = (case st of Reducer f \<Rightarrow> f (first_view e) | Stat v \<Rightarrow> v)"

text \<open>The labels as \<^verbatim>\<open>len\<close> accepts them: only an array has a length.\<close>

definition labels_array :: "'l labels \<Rightarrow> 'l list option" where
  "labels_array l = (case l of Labels ys \<Rightarrow> Some ys | _ \<Rightarrow> None)"

text \<open>
  The arithmetic \<^verbatim>\<open>(emb - mean) / std\<close> is numpy's: a parameter, in two
  operations. \<open>sub_div\<close> is the expression on one matrix; \<open>sub_div_tuple\<close> is
  the expression on a Python tuple of two matrices, which numpy first turns into
  one array of higher rank. Either returns an array or raises: \<^verbatim>\<open>ValueError\<close>
  on shapes that do not broadcast or do not stack, \<^verbatim>\<open>TypeError\<close> on operands
  it does not accept. The array it returns is the list of its items along the
  first axis, whose number is its \<^verbatim>\<open>len\<close>.
\<close>

datatype np_error = Np_ValueError | Np_TypeError

definition raised_by_numpy :: "np_error \<Rightarrow> error" where
  "raised_by_numpy e = (case e of Np_ValueError \<Rightarrow> ValueError | Np_TypeError \<Rightarrow> TypeError)"

record ('v, 's) numpy =
  sub_div :: "'v list \<Rightarrow> 's \<Rightarrow> 's \<Rightarrow> np_error + 'v list"
  sub_div_tuple :: "'v list \<Rightarrow> 'v list \<Rightarrow> 's \<Rightarrow> 's \<Rightarrow> np_error + 'v list list"

text \<open>The expression on one matrix, as an input of a dataset.\<close>

definition flat_inputs :: "('v, 's) numpy \<Rightarrow> 's \<Rightarrow> 's \<Rightarrow> 'v list \<Rightarrow> error + 'v list" where
  "flat_inputs nrm m sd a =
     (case sub_div nrm a m sd of
        Inl err \<Rightarrow> Inl (raised_by_numpy err)
      | Inr xa \<Rightarrow> Inr xa)"

text \<open>
  The training inputs: the source tests \<^verbatim>\<open>isinstance(self.train_emb, tuple)\<close>
  and normalizes each component, the first one first.
\<close>

definition train_inputs :: "('v, 's) numpy \<Rightarrow> 's \<Rightarrow> 's \<Rightarrow> 'v emb \<Rightarrow> error + 'v inputs" where
  "train_inputs nrm m sd e =
     (case e of
        Paired a b \<Rightarrow>
          (case flat_inputs nrm m sd a of
             Inl err \<Rightarrow> Inl err
           | Inr xa \<Rightarrow>
               (case flat_inputs nrm m sd b of
                  Inl err \<Rightarrow> Inl err
                | Inr xb \<Rightarrow> Inr (Pair xa xb)))
      | Single a \<Rightarrow>
          (case flat_inputs nrm m sd a of
             Inl err \<Rightarrow> Inl err
           | Inr xa \<Rightarrow> Inr (Flat xa)))"

text \<open>
  The validation and test inputs: the source applies the arithmetic to the
  attribute as it is, tuple or not.
\<close>

definition plain_inputs :: "('v, 's) numpy \<Rightarrow> 's \<Rightarrow> 's \<Rightarrow> 'v emb \<Rightarrow> error + 'v inputs" where
  "plain_inputs nrm m sd e =
     (case e of
        Single a \<Rightarrow>
          (case flat_inputs nrm m sd a of
             Inl err \<Rightarrow> Inl err
           | Inr xa \<Rightarrow> Inr (Flat xa))
      | Paired a b \<Rightarrow>
          (case sub_div_tuple nrm a b m sd of
             Inl err \<Rightarrow> Inl (raised_by_numpy err)
           | Inr c \<Rightarrow> Inr (Stacked c)))"

text \<open>
  The three constructor calls at the end of \<^verbatim>\<open>get_embedding_datasets\<close>, in
  the order of the source: the arguments of a call are computed before the call,
  and the first step that raises ends the method.
\<close>

definition build_datasets ::
  "('v, 's) numpy \<Rightarrow> 's \<Rightarrow> 's \<Rightarrow> int \<Rightarrow> 'v emb \<Rightarrow> 'v emb \<Rightarrow> 'v emb
    \<Rightarrow> 'l labels \<Rightarrow> 'l labels \<Rightarrow> 'l labels
    \<Rightarrow> error + (('v, 'l) DatasetOnMemory \<times> ('v, 'l) DatasetOnMemory \<times> ('v, 'l) DatasetOnMemory)"
  where
  "build_datasets nrm m sd nc tr va te trl val tel =
     (case train_inputs nrm m sd tr of
        Inl e \<Rightarrow> Inl e
      | Inr xtr \<Rightarrow>
     (case DatasetOnMemory_init xtr (labels_array trl) nc of
        Inl e \<Rightarrow> Inl e
      | Inr d_train \<Rightarrow>
          (case plain_inputs nrm m sd va of
             Inl e \<Rightarrow> Inl e
           | Inr xv \<Rightarrow>
               (case DatasetOnMemory_init xv (labels_array val) nc of
                  Inl e \<Rightarrow> Inl e
                | Inr d_val \<Rightarrow>
                    (case plain_inputs nrm m sd te of
                       Inl e \<Rightarrow> Inl e
                     | Inr xt \<Rightarrow>
                         (case DatasetOnMemory_init xt (labels_array tel) nc of
                            Inl e \<Rightarrow> Inl e
                          | Inr d_test \<Rightarrow> Inr (d_train, d_val, d_test)))))))"

text \<open>
  \<^verbatim>\<open>ALDataset.get_embedding_datasets\<close> of LabelBench. The labels and the
  statistics are stored back into the object before the datasets are built, so
  they stay stored when a constructor raises.
\<close>

definition get_embedding_datasets ::
  "('v, 's) numpy \<Rightarrow> ('x, 'y, 'm, 'v, 's, 'l, 't) ALDataset
    \<Rightarrow> ('x, 'y, 'm, 'v, 's, 'l, 't) ALDataset
        \<times> (error + (('v, 'l) DatasetOnMemory \<times> ('v, 'l) DatasetOnMemory
                      \<times> ('v, 'l) DatasetOnMemory))" where
  "get_embedding_datasets nrm s =
     (case (train_emb s, val_emb s, test_emb s) of
        (Some tr, Some va, Some te) \<Rightarrow>
          let trl = realize_labels (p_train_labels s);
              val = realize_labels (p_val_labels s);
              tel = realize_labels (p_test_labels s);
              m = realize_stat (p_train_emb_mean s) tr;
              sd = realize_stat (p_train_emb_std s) tr
          in (s\<lparr>p_train_labels := trl, p_val_labels := val, p_test_labels := tel,
                 p_train_emb_mean := Stat m, p_train_emb_std := Stat sd\<rparr>,
              build_datasets nrm m sd (num_classes s) tr va te trl val tel)
      | _ \<Rightarrow> (s, Inl UninitializedEmbedding))"

subsection \<open>The tracker as an array object\<close>

text \<open>
  Where it matters whether two arrays are the same object, arrays live in a store:
  a cell per reference, and the next reference to hand out. Every array the code
  builds (\<^verbatim>\<open>np.array\<close>, which copies its argument, and
  \<^verbatim>\<open>np.concatenate\<close>) takes a fresh cell, and the attribute
  \<^verbatim>\<open>__labeled_idxs\<close> holds a reference.
\<close>

record array_store =
  cells :: "nat \<Rightarrow> idx_array"
  lim :: nat

definition alloc :: "idx_array \<Rightarrow> array_store \<Rightarrow> nat \<times> array_store" where
  "alloc a h = (lim h, \<lparr>cells = (cells h)(lim h := a), lim = Suc (lim h)\<rparr>)"

text \<open>An assignment into the array at a reference, as a caller holding it can do.\<close>

definition write_array :: "nat \<Rightarrow> idx_array \<Rightarrow> array_store \<Rightarrow> array_store" where
  "write_array r a h = h\<lparr>cells := (cells h)(r := a)\<rparr>"

text \<open>The array object with the element type and contents of a one-dimensional array.\<close>

definition as_object :: "array1d \<Rightarrow> idx_array" where
  "as_object a = Array1d (fst a) (snd a)"

text \<open>
  \<^verbatim>\<open>np.concatenate((a, b))\<close>: zero-dimensional arrays cannot be concatenated.
\<close>

definition np_concatenate :: "idx_array \<Rightarrow> idx_array \<Rightarrow> error + idx_array" where
  "np_concatenate a b =
     (case (a, b) of
        (Array1d d xs, Array1d d' ys) \<Rightarrow> Inr (as_object (np_concatenate1 (d, xs) (d', ys)))
      | _ \<Rightarrow> Inl ValueError)"

definition update_labeled_idxs_ref ::
  "int list \<Rightarrow> ('x, 'y, 'm, 'v, 's, 'l, nat) ALDataset \<times> array_store
    \<Rightarrow> (('x, 'y, 'm, 'v, 's, 'l, nat) ALDataset \<times> array_store) \<times> error option" where
  "update_labeled_idxs_ref new_idxs sh =
     (case sh of (s, h) \<Rightarrow>
        (case alloc (as_object (np_array_list new_idxs)) h of (t, h1) \<Rightarrow>
           (case p_labeled_idxs s of
              None \<Rightarrow> ((s\<lparr>p_labeled_idxs := Some t\<rparr>, h1), None)
            | Some r0 \<Rightarrow>
                (case np_concatenate (cells h1 r0) (cells h1 t) of
                   Inl e \<Rightarrow> ((s, h1), Some e)
                 | Inr a \<Rightarrow>
                     (case alloc a h1 of (r, h2) \<Rightarrow>
                        ((s\<lparr>p_labeled_idxs := Some r\<rparr>, h2), None))))))"

definition num_labeled_ref ::
  "('x, 'y, 'm, 'v, 's, 'l, nat) ALDataset \<Rightarrow> array_store \<Rightarrow> error + nat" where
  "num_labeled_ref s h =
     (case p_labeled_idxs s of
        None \<Rightarrow> Inl TypeError
      | Some r \<Rightarrow>
          (case cells h r of
             Array0d_None \<Rightarrow> Inl TypeError
           | Array1d d xs \<Rightarrow> Inr (length xs)))"

text \<open>
  \<^verbatim>\<open>labeled_idxs\<close>: \<^verbatim>\<open>np.array(self.__labeled_idxs)\<close> builds a new array
  with the contents of the tracker and returns the reference to it.
\<close>

definition labeled_idxs_ref ::
  "('x, 'y, 'm, 'v, 's, 'l, nat) ALDataset \<Rightarrow> array_store \<Rightarrow> nat \<times> array_store" where
  "labeled_idxs_ref s h =
     alloc (case p_labeled_idxs s of None \<Rightarrow> Array0d_None | Some r \<Rightarrow> cells h r) h"

definition unlabeled_idxs_ref ::
  "('x, 'y, 'm, 'v, 's, 'l, nat) ALDataset \<Rightarrow> array_store
    \<Rightarrow> array_store \<times> (error + nat)" where
  "unlabeled_idxs_ref s h =
     (case labeled_idxs_ref s h of (r, h1) \<Rightarrow>
        (case py_list (cells h1 r) of
           Inl e \<Rightarrow> (h1, Inl e)
         | Inr labeled \<Rightarrow>
             (case alloc (range_array (filter (\<lambda>i. i \<notin> set labeled)
                                               (map int [0 ..< ALDataset_len s]))) h1 of
                (u, h2) \<Rightarrow> (h2, Inr u))))"

text \<open>What a caller reads from the array a method returned.\<close>

definition labeled_idxs_read ::
  "('x, 'y, 'm, 'v, 's, 'l, nat) ALDataset \<Rightarrow> array_store \<Rightarrow> idx_array" where
  "labeled_idxs_read s h = (case labeled_idxs_ref s h of (r, h1) \<Rightarrow> cells h1 r)"

definition unlabeled_idxs_read ::
  "('x, 'y, 'm, 'v, 's, 'l, nat) ALDataset \<Rightarrow> array_store \<Rightarrow> error + idx_array" where
  "unlabeled_idxs_read s h =
     (case unlabeled_idxs_ref s h of
        (h2, Inl e) \<Rightarrow> Inl e
      | (h2, Inr u) \<Rightarrow> Inr (cells h2 u))"

text \<open>The tracker's reference, if any, was handed out by the store.\<close>

definition tracker_allocated ::
  "('x, 'y, 'm, 'v, 's, 'l, nat) ALDataset \<Rightarrow> array_store \<Rightarrow> bool" where
  "tracker_allocated s h =
     (case p_labeled_idxs s of None \<Rightarrow> True | Some r \<Rightarrow> r < lim h)"

section \<open>The optimizer factory\<close>

text \<open>
  A trainer configuration is a dictionary from strings to values. The closure
  \<^verbatim>\<open>optim_fn\<close> is a value too; it is represented by the optimizer it builds
  and the variables bound when it is defined (\<^verbatim>\<open>wd\<close>, \<^verbatim>\<open>nesterov\<close>,
  \<^verbatim>\<open>momentum\<close>); the learning rate and the betas are read from the
  configuration only when the closure is called.
\<close>

datatype 'f cval =
    VStr string
  | VInt int
  | VFloat 'f
  | VBool bool
  | VSeq "'f cval list"
  | Optim_Adam "'f cval"
  | Optim_Adam_betas "'f cval"
  | Optim_SGD "'f cval" "'f cval" "'f cval"

datatype 'f config_error =
    KeyError string
  | AttributeError
      \<comment> \<open>\<^verbatim>\<open>.split\<close> on a value that is not a string\<close>
  | ValueError_unknown_optimizer "'f cval"
      \<comment> \<open>\<^verbatim>\<open>ValueError("%s optimizer is unknown" % v)\<close>\<close>

type_synonym 'f trainer_config = "string \<Rightarrow> 'f cval option"

text \<open>\<^verbatim>\<open>name.split("_")[0]\<close>: the text before the first underscore.\<close>

definition split_first :: "string \<Rightarrow> string" where
  "split_first name = takeWhile (\<lambda>c. c \<noteq> CHR ''_'') name"

text \<open>\<^verbatim>\<open>d[k] if k in d else v\<close>\<close>

definition get_or :: "'f trainer_config \<Rightarrow> string \<Rightarrow> 'f cval \<Rightarrow> 'f cval" where
  "get_or d k v = (case d k of Some u \<Rightarrow> u | None \<Rightarrow> v)"

text \<open>
  \<^verbatim>\<open>get_optimizer_fn\<close>: the dictionary as the call leaves it (the function
  assigns into its argument and returns it) and the exception raised, if any.
\<close>

definition get_optimizer_fn ::
  "'f trainer_config \<Rightarrow> 'f trainer_config \<times> 'f config_error option" where
  "get_optimizer_fn trainer_config =
     (case trainer_config ''trainer_name'' of
        None \<Rightarrow> (trainer_config, Some (KeyError ''trainer_name''))
      | Some (VStr name) \<Rightarrow>
          if split_first name \<noteq> ''sklearn'' then
            (let wd = get_or trainer_config ''wd'' (VInt 0) in
             case trainer_config ''optim_name'' of
               None \<Rightarrow> (trainer_config, Some (KeyError ''optim_name''))
             | Some optim_name \<Rightarrow>
                 if optim_name = VStr ''Adam'' then
                   (if trainer_config ''betas'' = None
                    then (trainer_config(''optim_fn'' \<mapsto> Optim_Adam wd), None)
                    else (trainer_config(''optim_fn'' \<mapsto> Optim_Adam_betas wd), None))
                 else if optim_name = VStr ''SGD'' then
                   (let nesterov = get_or trainer_config ''nesterov'' (VBool False);
                        momentum = get_or trainer_config ''momentum'' (VInt 0)
                    in (trainer_config(''optim_fn'' \<mapsto> Optim_SGD wd nesterov momentum), None))
                 else (trainer_config, Some (ValueError_unknown_optimizer optim_name)))
          else (trainer_config, None)
      | Some _ \<Rightarrow> (trainer_config, Some AttributeError))"

section \<open>The older copy of ALDataset under ALBench\<close>

text \<open>
  ALBench's \<^verbatim>\<open>ALDataset\<close> wraps ALBench's \<^verbatim>\<open>TransformDataset\<close>, knows no
  paired embeddings, and carries weak labels, which it hands to
  \<^verbatim>\<open>DatasetOnMemory\<close> as metadata. Its extractor is any callable
  \<^verbatim>\<open>get_feature_fn(dataset, dataset_split, epoch)\<close>. The methods
  \<^verbatim>\<open>update_labeled_idxs\<close>, \<^verbatim>\<open>num_labeled\<close> and \<^verbatim>\<open>labeled_idxs\<close> have
  the same text in both copies.
\<close>

record ('v, 'l, 'w) DatasetOnMemory_ALBench =
  al_X :: "'v list"
  al_y :: "'l list"
  al_n_class :: int
  al_meta_data :: "'w list option"

text \<open>
  \<^verbatim>\<open>DatasetOnMemory.__init__\<close> of ALBench: the assertion on the labels, then,
  \<^verbatim>\<open>if meta_data is not None\<close>, the assertion on the metadata.
\<close>

definition DatasetOnMemory_ALBench_init ::
  "'v list \<Rightarrow> 'l list option \<Rightarrow> int \<Rightarrow> 'w labels
    \<Rightarrow> error + ('v, 'l, 'w) DatasetOnMemory_ALBench" where
  "DatasetOnMemory_ALBench_init X y n meta_data =
     (case y of
        None \<Rightarrow> Inl TypeError
      | Some ys \<Rightarrow>
          if length X = length ys then
            (case meta_data of
               NoLabels \<Rightarrow>
                 Inr \<lparr>al_X = X, al_y = ys, al_n_class = n, al_meta_data = None\<rparr>
             | Labels ms \<Rightarrow>
                 if length X = length ms
                 then Inr \<lparr>al_X = X, al_y = ys, al_n_class = n, al_meta_data = Some ms\<rparr>
                 else Inl (AssertionError ''X and y must have the same length.'')
             | Producer f \<Rightarrow> Inl TypeError)
          else Inl (AssertionError ''X and y must have the same length.''))"

record ('x, 'y, 'm, 'v, 's, 'l, 'w, 't) ALDataset_ALBench =
  al_train_dataset :: "('x, 'y, 'm) TransformDataset_ALBench"
  al_val_dataset :: "('x, 'y, 'm) TransformDataset_ALBench"
  al_test_dataset :: "('x, 'y, 'm) TransformDataset_ALBench"
  al_label_type :: LabelType
  al_num_classes :: int
  al_train_emb :: "'v list option"
  al_val_emb :: "'v list option"
  al_test_emb :: "'v list option"
  al_p_train_emb_mean :: "('v, 's) stat"
  al_p_train_emb_std :: "('v, 's) stat"
  al_p_labeled_idxs :: "'t option"
  al_p_train_labels :: "'l labels"
  al_p_val_labels :: "'l labels"
  al_p_test_labels :: "'l labels"
  al_p_train_weak_labels :: "'w labels"
  al_p_val_weak_labels :: "'w labels"
  al_p_test_weak_labels :: "'w labels"
  al_classnames :: "string list"

definition ALDataset_ALBench_init ::
  "('x, 'y, 'm) TransformDataset_ALBench \<Rightarrow> ('x, 'y, 'm) TransformDataset_ALBench
    \<Rightarrow> ('x, 'y, 'm) TransformDataset_ALBench \<Rightarrow> 'l labels \<Rightarrow> 'l labels \<Rightarrow> 'l labels
    \<Rightarrow> LabelType \<Rightarrow> int \<Rightarrow> string list \<Rightarrow> ('v, 's) stat \<Rightarrow> ('v, 's) stat
    \<Rightarrow> 'w labels \<Rightarrow> 'w labels \<Rightarrow> 'w labels
    \<Rightarrow> ('x, 'y, 'm, 'v, 's, 'l, 'w, 't) ALDataset_ALBench" where
  "ALDataset_ALBench_init tr va te trl val tel lt nc names mean std trw vaw tew =
     \<lparr>al_train_dataset = tr, al_val_dataset = va, al_test_dataset = te, al_label_type = lt,
      al_num_classes = nc, al_train_emb = None, al_val_emb = None, al_test_emb = None,
      al_p_train_emb_mean = mean, al_p_train_emb_std = std, al_p_labeled_idxs = None,
      al_p_train_labels = trl, al_p_val_labels = val, al_p_test_labels = tel,
      al_p_train_weak_labels = trw, al_p_val_weak_labels = vaw, al_p_test_weak_labels = tew,
      al_classnames = names\<rparr>"

type_synonym ('x, 'y, 'm, 'v) get_feature_fn =
  "('x, 'y, 'm) TransformDataset_ALBench \<Rightarrow> split \<Rightarrow> int \<Rightarrow> error + 'v list"

fun getattr_dataset_ALBench ::
  "split \<Rightarrow> ('x, 'y, 'm, 'v, 's, 'l, 'w, 't) ALDataset_ALBench
    \<Rightarrow> ('x, 'y, 'm) TransformDataset_ALBench" where
  "getattr_dataset_ALBench Train s = al_train_dataset s"
| "getattr_dataset_ALBench Val s = al_val_dataset s"
| "getattr_dataset_ALBench Test s = al_test_dataset s"

fun setattr_emb_ALBench ::
  "split \<Rightarrow> 'v list \<Rightarrow> ('x, 'y, 'm, 'v, 's, 'l, 'w, 't) ALDataset_ALBench
    \<Rightarrow> ('x, 'y, 'm, 'v, 's, 'l, 'w, 't) ALDataset_ALBench" where
  "setattr_emb_ALBench Train e s = s\<lparr>al_train_emb := Some e\<rparr>"
| "setattr_emb_ALBench Val e s = s\<lparr>al_val_emb := Some e\<rparr>"
| "setattr_emb_ALBench Test e s = s\<lparr>al_test_emb := Some e\<rparr>"

fun update_splits_ALBench ::
  "('x, 'y, 'm, 'v) get_feature_fn \<Rightarrow> int \<Rightarrow> split list
    \<Rightarrow> ('x, 'y, 'm, 'v, 's, 'l, 'w, 't) ALDataset_ALBench
    \<Rightarrow> ('x, 'y, 'm, 'v, 's, 'l, 'w, 't) ALDataset_ALBench \<times> error option" where
  "update_splits_ALBench gf epoch [] s = (s, None)"
| "update_splits_ALBench gf epoch (sp # sps) s =
     (case gf (getattr_dataset_ALBench sp s) sp epoch of
        Inl e \<Rightarrow> (s, Some e)
      | Inr feat_emb \<Rightarrow> update_splits_ALBench gf epoch sps (setattr_emb_ALBench sp feat_emb s))"

definition update_embedding_dataset_ALBench ::
  "int \<Rightarrow> ('x, 'y, 'm, 'v) get_feature_fn
    \<Rightarrow> ('x, 'y, 'm, 'v, 's, 'l, 'w, 't) ALDataset_ALBench
    \<Rightarrow> ('x, 'y, 'm, 'v, 's, 'l, 'w, 't) ALDataset_ALBench \<times> error option" where
  "update_embedding_dataset_ALBench epoch gf s =
     update_splits_ALBench gf epoch [Train, Val, Test] s"

text \<open>
  The tuple of three constructor calls that \<^verbatim>\<open>get_embedding_datasets\<close>
  returns, evaluated from left to right.
\<close>

definition build_datasets_ALBench ::
  "('v, 's) numpy \<Rightarrow> 's \<Rightarrow> 's \<Rightarrow> int \<Rightarrow> 'v list \<Rightarrow> 'v list \<Rightarrow> 'v list
    \<Rightarrow> 'l labels \<Rightarrow> 'l labels \<Rightarrow> 'l labels \<Rightarrow> 'w labels \<Rightarrow> 'w labels \<Rightarrow> 'w labels
    \<Rightarrow> error + (('v, 'l, 'w) DatasetOnMemory_ALBench \<times> ('v, 'l, 'w) DatasetOnMemory_ALBench
                 \<times> ('v, 'l, 'w) DatasetOnMemory_ALBench)" where
  "build_datasets_ALBench nrm m sd nc tr va te trl val tel trw vaw tew =
     (case flat_inputs nrm m sd tr of
        Inl e \<Rightarrow> Inl e
      | Inr xtr \<Rightarrow>
     (case DatasetOnMemory_ALBench_init xtr (labels_array trl) nc trw of
        Inl e \<Rightarrow> Inl e
      | Inr d_train \<Rightarrow>
     (case flat_inputs nrm m sd va of
        Inl e \<Rightarrow> Inl e
      | Inr xva \<Rightarrow>
     (case DatasetOnMemory_ALBench_init xva (labels_array val) nc vaw of
        Inl e \<Rightarrow> Inl e
      | Inr d_val \<Rightarrow>
     (case flat_inputs nrm m sd te of
        Inl e \<Rightarrow> Inl e
      | Inr xte \<Rightarrow>
     (case DatasetOnMemory_ALBench_init xte (labels_array tel) nc tew of
        Inl e \<Rightarrow> Inl e
      | Inr d_test \<Rightarrow> Inr (d_train, d_val, d_test)))))))"

definition get_embedding_datasets_ALBench ::
  "('v, 's) numpy \<Rightarrow> ('x, 'y, 'm, 'v, 's, 'l, 'w, 't) ALDataset_ALBench
    \<Rightarrow> ('x, 'y, 'm, 'v, 's, 'l, 'w, 't) ALDataset_ALBench
        \<times> (error + (('v, 'l, 'w) DatasetOnMemory_ALBench \<times> ('v, 'l, 'w) DatasetOnMemory_ALBench
                      \<times> ('v, 'l, 'w) DatasetOnMemory_ALBench))" where
  "get_embedding_datasets_ALBench nrm s =
     (case (al_train_emb s, al_val_emb s, al_test_emb s) of
        (Some tr, Some va, Some te) \<Rightarrow>
          let trl = realize_labels (al_p_train_labels s);
              val = realize_labels (al_p_val_labels s);
              tel = realize_labels (al_p_test_labels s);
              trw = realize_labels (al_p_train_weak_labels s);
              vaw = realize_labels (al_p_val_weak_labels s);
              tew = realize_labels (al_p_test_weak_labels s);
              m = realize_stat (al_p_train_emb_mean s) (Single tr);
              sd = realize_stat (al_p_train_emb_std s) (Single tr)
          in (s\<lparr>al_p_train_labels := trl, al_p_val_labels := val, al_p_test_labels := tel,
                 al_p_train_weak_labels := trw, al_p_val_weak_labels := vaw,
                 al_p_test_weak_labels := tew,
                 al_p_train_emb_mean := Stat m, al_p_train_emb_std := Stat sd\<rparr>,
              build_datasets_ALBench nrm m sd (al_num_classes s) tr va te
                trl val tel trw vaw tew)
      | _ \<Rightarrow> (s, Inl UninitializedEmbedding))"

section \<open>Predicates and instances used in the statements\<close>

text \<open>The values the tracker holds, none while it is absent.\<close>

definition tracker_values :: "('x, 'y, 'm, 'v, 's, 'l, array1d) ALDataset \<Rightarrow> int list" where
  "tracker_values s = (case p_labeled_idxs s of None \<Rightarrow> [] | Some a \<Rightarrow> snd a)"

text \<open>
  What may have become of a submitted index \<open>x\<close> when it is stored as \<open>v\<close>: it is
  kept, or it was at least \<open>2\<^sup>5\<^sup>3\<close> in absolute value and still is, with its sign.
\<close>

definition stored_as :: "int \<Rightarrow> int \<Rightarrow> bool" where
  "stored_as v x = (v = x \<or> (2 ^ 53 \<le> x \<and> 2 ^ 53 \<le> v) \<or> (x \<le> - (2 ^ 53) \<and> v \<le> - (2 ^ 53)))"

text \<open>The contents of the tracker array in a store.\<close>

definition tracker_contents ::
  "('x, 'y, 'm, 'v, 's, 'l, nat) ALDataset \<Rightarrow> array_store \<Rightarrow> idx_array option" where
  "tracker_contents s h = map_option (cells h) (p_labeled_idxs s)"

text \<open>
  An object whose tracker is a reference and a store represent an object that
  holds the tracker by value.
\<close>

definition tracker_rel ::
  "('x, 'y, 'm, 'v, 's, 'l, array1d) ALDataset \<Rightarrow> ('x, 'y, 'm, 'v, 's, 'l, nat) ALDataset
    \<Rightarrow> array_store \<Rightarrow> bool" where
  "tracker_rel sv sr h =
     (tracker_allocated sr h
      \<and> tracker_contents sr h = map_option as_object (p_labeled_idxs sv)
      \<and> ALDataset_len sr = ALDataset_len sv)"

text \<open>
  A small experiment: four training items, two validation and two test items,
  rows that are single integers, and integer stand-ins for the reducers and for
  the arithmetic of the normalization, which raises on a tuple whose two
  matrices differ in length.
\<close>

definition demo_wrapper :: "nat list \<Rightarrow> (nat, nat, unit) TransformDataset" where
  "demo_wrapper xs = TransformDataset_init (map (\<lambda>i. (i, i mod 2, [])) xs) None None False"

definition demo_ALDataset :: "(nat, nat, unit, int, int, nat, array1d) ALDataset" where
  "demo_ALDataset =
     ALDataset_init (demo_wrapper [0, 1, 2, 3]) (demo_wrapper [0, 1]) (demo_wrapper [0, 1])
       (Labels [0, 1, 0, 1]) (Producer (\<lambda>_. [0, 1])) (Labels [0, 1])
       MULTI_CLASS 2 [''even'', ''odd'']
       (Reducer (\<lambda>rows. sum_list rows div int (length rows)))
       (Reducer (\<lambda>rows. 1 + int (length rows)))"

text \<open>The same experiment with the labels left out, as the CIFAR-10 loader returns them.\<close>

definition nolabels_ALDataset :: "(nat, nat, unit, int, int, nat, array1d) ALDataset" where
  "nolabels_ALDataset =
     ALDataset_init (demo_wrapper [0, 1, 2, 3]) (demo_wrapper [0, 1]) (demo_wrapper [0, 1])
       NoLabels NoLabels NoLabels MULTI_CLASS 2 [''even'', ''odd'']
       (Reducer (\<lambda>rows. sum_list rows div int (length rows)))
       (Reducer (\<lambda>rows. 1 + int (length rows)))"

text \<open>The same experiment with the tracker held as a reference.\<close>

definition demo_ALDataset_ref :: "(nat, nat, unit, int, int, nat, nat) ALDataset" where
  "demo_ALDataset_ref =
     ALDataset_init (demo_wrapper [0, 1, 2, 3]) (demo_wrapper [0, 1]) (demo_wrapper [0, 1])
       (Labels [0, 1, 0, 1]) (Producer (\<lambda>_. [0, 1])) (Labels [0, 1])
       MULTI_CLASS 2 [''even'', ''odd'']
       (Reducer (\<lambda>rows. sum_list rows div int (length rows)))
       (Reducer (\<lambda>rows. 1 + int (length rows)))"

definition empty_store :: array_store where
  "empty_store = \<lparr>cells = (\<lambda>_. Array0d_None), lim = 0\<rparr>"

definition demo_nrm :: "(int, int) numpy" where
  "demo_nrm =
     \<lparr>sub_div = (\<lambda>rows m sd. Inr (map (\<lambda>r. (r - m) div sd) rows)),
      sub_div_tuple = (\<lambda>a b m sd.
        if length a = length b
        then Inr [map (\<lambda>r. (r - m) div sd) a, map (\<lambda>r. (r - m) div sd) b]
        else Inl Np_ValueError)\<rparr>"

text \<open>
  An extractor whose embedding of an item is the item's input plus the epoch, and
  one that raises on the validation split.
\<close>

definition demo_get_feature :: "(nat, nat, unit, int) get_feature" where
  "demo_get_feature ds sp epoch use_strong =
     (let weak = map (\<lambda>it. int (fst it) + epoch) (dataset ds)
      in if use_strong \<and> sp = Train then Inr (Paired weak (map (\<lambda>r. r + 1) weak))
         else Inr (Single weak))"

definition failing_get_feature :: "(nat, nat, unit, int) get_feature" where
  "failing_get_feature ds sp epoch use_strong =
     (if sp = Val then Inl (Raised ''out of memory'')
      else demo_get_feature ds sp epoch use_strong)"

text \<open>Two trainer configurations with an optimizer name the factory does not know.\<close>

definition sklearn_config :: "int trainer_config" where
  "sklearn_config =
     [''trainer_name'' \<mapsto> VStr ''sklearn_passive'', ''optim_name'' \<mapsto> VStr ''RMSprop'']"

definition pytorch_config :: "int trainer_config" where
  "pytorch_config =
     [''trainer_name'' \<mapsto> VStr ''pytorch_passive'', ''optim_name'' \<mapsto> VStr ''RMSprop'',
      ''lr'' \<mapsto> VFloat 1, ''wd'' \<mapsto> VInt 0]"

text \<open>
  What \<^verbatim>\<open>get_cifar10_imb_dataset\<close> returns, on a two-item stand-in for
  CIFAR-10: three wrappers with an input transform, and \<^verbatim>\<open>None\<close> for the
  three label arrays.
\<close>

definition cifar10_like ::
  "(nat, nat, unit, int, int, nat, nat, array1d) ALDataset_ALBench" where
  "cifar10_like =
     ALDataset_ALBench_init
       (TransformDataset_ALBench_init [(0, 0, []), (1, 1, [])] (Some Suc) None False)
       (TransformDataset_ALBench_init [(2, 0, [])] (Some id) None False)
       (TransformDataset_ALBench_init [(3, 1, [])] (Some id) None False)
       NoLabels NoLabels NoLabels MULTI_CLASS 10 [''airplane'', ''automobile'']
       (Reducer (\<lambda>rows. sum_list rows div int (length rows)))
       (Reducer (\<lambda>rows. 1 + int (length rows)))
       NoLabels NoLabels NoLabels"

text \<open>The same with labels, and with weak labels on the training split only.\<close>

definition labelled_ALBench ::
  "(nat, nat, unit, int, int, nat, nat, array1d) ALDataset_ALBench" where
  "labelled_ALBench =
     ALDataset_ALBench_init
       (TransformDataset_ALBench_init [(0, 0, []), (1, 1, [])] (Some Suc) None False)
       (TransformDataset_ALBench_init [(2, 0, [])] (Some id) None False)
       (TransformDataset_ALBench_init [(3, 1, [])] (Some id) None False)
       (Labels [0, 1]) (Producer (\<lambda>_. [0])) (Labels [1]) MULTI_CLASS 10
       [''airplane'', ''automobile'']
       (Reducer (\<lambda>rows. sum_list rows div int (length rows)))
       (Reducer (\<lambda>rows. 1 + int (length rows)))
       (Labels [1, 1]) NoLabels NoLabels"

definition demo_get_feature_fn :: "(nat, nat, unit, int) get_feature_fn" where
  "demo_get_feature_fn ds sp epoch = Inr (map (\<lambda>it. int (fst it) + epoch) (al_dataset ds))"

section \<open>Properties of TransformDataset\<close>

lemmas demo_defs = demo_ALDataset_def demo_wrapper_def demo_nrm_def demo_get_feature_def
  ALDataset_init_def TransformDataset_init_def

text \<open>
  Resetting undoes any number of \<^verbatim>\<open>set_transform\<close> calls, on every wrapper, and
  changes nothing on a wrapper whose transform is the default one.
\<close>

lemma set_to_default_transform_after_set:
  "set_to_default_transform (set_transform f w) = set_to_default_transform w"
  "set_to_default_target_transform (set_target_transform g w)
     = set_to_default_target_transform w"
  by (simp_all add: set_to_default_transform_def set_transform_def
      set_to_default_target_transform_def set_target_transform_def)

lemma set_to_default_transform_idle:
  "transform w = default_transform w \<Longrightarrow> set_to_default_transform w = w"
  "target_transform w = default_target_transform w
     \<Longrightarrow> set_to_default_target_transform w = w"
  by (simp_all add: set_to_default_transform_def set_to_default_target_transform_def)

lemma getitem_unset_transform_never_returns:
  "TransformDataset_getitem (set_transform None w) i \<noteq> Inr r"
  by (simp add: TransformDataset_getitem_def set_transform_def Let_def
      split: sum.splits option.splits prod.splits)

lemma getitem_ALBench_unset_transform:
  "i < length ds \<Longrightarrow> ds ! i = (x, y, []) \<Longrightarrow>
   getitem_ALBench (TransformDataset_ALBench_init ds None tt im) i =
     Inr (x, case tt of Some g \<Rightarrow> g y | None \<Rightarrow> y)"
  by (simp add: getitem_ALBench_def TransformDataset_ALBench_init_def read_item_def)

text \<open>
  C6. A wrapper whose input transform is not set should return the base item's
  input unchanged. ALBench's copy does (\<open>getitem_ALBench_unset_transform\<close>).
  LabelBench's \<^verbatim>\<open>__getitem__\<close> assigns \<^verbatim>\<open>x\<close> only when the transform
  is set, so a read of the one-item dataset \<open>[(7, 1)]\<close> through a wrapper built
  without transforms raises \<^verbatim>\<open>UnboundLocalError\<close> instead of returning
  \<open>(7, 1)\<close>.
\<close>

theorem C6_unset_transform_raises:
  "TransformDataset_getitem
     (TransformDataset_init [(7::int, 1::int, [] :: unit list)] None None False) 0
   = Inl UnboundLocalError"
  by (simp add: TransformDataset_getitem_def TransformDataset_init_def read_item_def)

text \<open>
  C8. On a wrapper as its constructor leaves it, setting a custom input transform
  and resetting to the default gives, at every index, the read of the wrapper on
  which no transform was ever set; likewise for the target transform, and in both
  copies of the class.
\<close>

theorem C8_reset_to_default:
  "TransformDataset_getitem
     (set_to_default_transform (set_transform f (TransformDataset_init ds t tt im))) i
   = TransformDataset_getitem (TransformDataset_init ds t tt im) i
   \<and> TransformDataset_getitem
     (set_to_default_target_transform
        (set_target_transform g (TransformDataset_init ds t tt im))) i
   = TransformDataset_getitem (TransformDataset_init ds t tt im) i
   \<and> getitem_ALBench
     (set_to_default_transform_ALBench
        (set_transform_ALBench f (TransformDataset_ALBench_init ds t tt im))) i
   = getitem_ALBench (TransformDataset_ALBench_init ds t tt im) i
   \<and> getitem_ALBench
     (set_to_default_target_transform_ALBench
        (set_target_transform_ALBench g (TransformDataset_ALBench_init ds t tt im))) i
   = getitem_ALBench (TransformDataset_ALBench_init ds t tt im) i"
  by (simp add: set_to_default_transform_def set_transform_def TransformDataset_init_def
      set_to_default_target_transform_def set_target_transform_def
      set_to_default_transform_ALBench_def set_transform_ALBench_def
      set_to_default_target_transform_ALBench_def set_target_transform_ALBench_def
      TransformDataset_ALBench_init_def)

section \<open>Properties of the labeled-index tracker\<close>

text \<open>Conversion to \<^verbatim>\<open>float64\<close> keeps integers below \<open>2\<^sup>5\<^sup>3\<close> in absolute value.\<close>

lemma f64_shift_small: "a < 2 ^ 53 \<Longrightarrow> f64_shift a = 0"
proof -
  assume a: "a < 2 ^ 53"
  have "\<not> (2::int) ^ (53 + k) \<le> a" for k :: nat
  proof -
    have "(2::int) ^ 53 \<le> 2 ^ (53 + k)" by (rule power_increasing) simp_all
    with a show ?thesis by linarith
  qed
  then show ?thesis by (simp add: f64_shift_def)
qed

lemma f64_shift_le: "f64_shift a \<le> 11"
proof -
  have "length (filter (\<lambda>k. 2 ^ (53 + k) \<le> a) [0 ..< 11]) \<le> length [0 ..< (11::nat)]"
    by (rule length_filter_le)
  then show ?thesis by (simp add: f64_shift_def)
qed

lemma round_f64_small: "\<bar>x\<bar> < 2 ^ 53 \<Longrightarrow> round_f64 x = x"
  by (simp add: round_f64_def f64_shift_small Let_def mult_sgn_abs)

lemma floor_multiple_ge:
  fixes v :: int
  assumes "2 ^ 53 \<le> v" and "e \<le> 53"
  shows "2 ^ 53 \<le> v div 2 ^ e * 2 ^ e"
proof -
  have "(2::int) ^ 53 = 2 ^ (53 - e) * 2 ^ e"
    using assms(2) by (simp add: power_add [symmetric])
  moreover have "(2::int) ^ (53 - e) \<le> v div 2 ^ e"
  proof -
    have "(2::int) ^ (53 - e) = (2 ^ (53 - e) * 2 ^ e) div 2 ^ e" by simp
    also have "\<dots> \<le> v div 2 ^ e"
      using assms(1) \<open>(2::int) ^ 53 = 2 ^ (53 - e) * 2 ^ e\<close>
      by (intro zdiv_mono1) simp_all
    finally show ?thesis .
  qed
  ultimately show ?thesis
    by (metis mult_right_mono zero_le_numeral zero_le_power)
qed

lemma round_f64_ge:
  assumes "2 ^ 53 \<le> x"
  shows "2 ^ 53 \<le> round_f64 x"
proof -
  let ?e = "f64_shift \<bar>x\<bar>"
  have x: "\<bar>x\<bar> = x" "sgn x = 1" using assms by simp_all
  have e: "?e \<le> 53" using f64_shift_le [of "\<bar>x\<bar>"] by simp
  define q where "q = x div 2 ^ ?e"
  define q' where
    "q' = (if 2 ^ ?e < 2 * (x mod 2 ^ ?e) \<or> (2 * (x mod 2 ^ ?e) = 2 ^ ?e \<and> odd q)
           then q + 1 else q)"
  have r: "round_f64 x = q' * 2 ^ ?e"
    by (simp add: round_f64_def Let_def x q'_def q_def)
  have fl: "2 ^ 53 \<le> q * 2 ^ ?e"
    unfolding q_def by (rule floor_multiple_ge [OF assms e])
  have "q \<le> q'" by (simp add: q'_def)
  then have "q * 2 ^ ?e \<le> q' * 2 ^ ?e" by (simp add: mult_right_mono)
  with fl show ?thesis unfolding r by (rule order_trans)
qed

lemma round_f64_minus: "round_f64 (- x) = - round_f64 x"
  by (simp add: round_f64_def Let_def)

lemma round_f64_le:
  assumes "x \<le> - (2 ^ 53)"
  shows "round_f64 x \<le> - (2 ^ 53)"
proof -
  have "2 ^ 53 \<le> round_f64 (- x)" using assms by (intro round_f64_ge) simp
  then show ?thesis by (simp add: round_f64_minus)
qed

lemma cast_small: "\<bar>x\<bar> < 2 ^ 53 \<Longrightarrow> cast d x = x"
  by (simp add: cast_def round_f64_small)

lemma stored_as_refl: "stored_as x x"
  by (simp add: stored_as_def)

lemma stored_as_trans: "stored_as v w \<Longrightarrow> stored_as w x \<Longrightarrow> stored_as v x"
  by (auto simp: stored_as_def)

lemma stored_as_cast: "stored_as (cast d x) x"
proof (cases "d = Float64")
  case False
  then show ?thesis by (simp add: cast_def stored_as_def)
next
  case True
  consider "\<bar>x\<bar> < 2 ^ 53" | "2 ^ 53 \<le> x" | "x \<le> - (2 ^ 53)" by linarith
  then show ?thesis
  proof cases
    case 1
    then show ?thesis by (simp add: cast_small stored_as_def)
  next
    case 2
    with round_f64_ge [OF 2] True show ?thesis by (simp add: cast_def stored_as_def)
  next
    case 3
    with round_f64_le [OF 3] True show ?thesis by (simp add: cast_def stored_as_def)
  qed
qed

lemma stored_as_map_cast: "list_all2 stored_as (map (cast d) xs) xs"
  by (simp add: list_all2_conv_all_nth stored_as_cast)

lemma stored_as_exact:
  "list_all2 stored_as vs xs \<Longrightarrow> \<forall>x \<in> set xs. \<bar>x\<bar> < 2 ^ 53 \<Longrightarrow> vs = xs"
proof (induction rule: list_all2_induct)
  case Nil
  then show ?case by simp
next
  case (Cons v vs x xs)
  then show ?case by (auto simp: stored_as_def)
qed

lemma stored_as_member:
  assumes "list_all2 stored_as vs xs" and "0 \<le> i" and "i < 2 ^ 53"
  shows "i \<in> set vs \<longleftrightarrow> i \<in> set xs"
  using assms
proof (induction rule: list_all2_induct)
  case Nil
  then show ?case by simp
next
  case (Cons v vs x xs)
  then show ?case by (auto simp: stored_as_def)
qed

text \<open>What an update leaves in the tracker, element by element.\<close>

lemma tracker_values_update:
  "list_all2 stored_as (tracker_values (update_labeled_idxs new s)) (tracker_values s @ new)"
proof (cases "p_labeled_idxs s")
  case None
  then show ?thesis
    by (simp add: tracker_values_def update_labeled_idxs_def np_array_list_def
        Let_def stored_as_map_cast)
next
  case (Some old)
  have "list_all2 stored_as (map (cast d) (snd old) @ map (cast d) (map (cast d') new))
          (snd old @ new)" for d d'
  proof (rule list_all2_appendI)
    show "list_all2 stored_as (map (cast d) (snd old)) (snd old)" by (rule stored_as_map_cast)
    have "list_all2 stored_as (map (cast d) (map (cast d') new)) (map (cast d') new)"
      by (rule stored_as_map_cast)
    moreover have "list_all2 stored_as (map (cast d') new) new" by (rule stored_as_map_cast)
    ultimately show "list_all2 stored_as (map (cast d) (map (cast d') new)) new"
      by (rule list_all2_trans [rotated]) (rule stored_as_trans)
  qed
  with Some show ?thesis
    by (simp add: tracker_values_def update_labeled_idxs_def np_array_list_def
        np_concatenate1_def Let_def)
qed

lemma tracker_present_update: "p_labeled_idxs (update_labeled_idxs new s) \<noteq> None"
  by (simp add: update_labeled_idxs_def split: option.splits)

lemma len_update: "ALDataset_len (update_labeled_idxs new s) = ALDataset_len s"
  by (simp add: update_labeled_idxs_def ALDataset_len_def split: option.splits)

lemma tracker_values_fold:
  "list_all2 stored_as (tracker_values (fold update_labeled_idxs calls s))
     (tracker_values s @ concat calls)"
proof (induction calls arbitrary: s)
  case Nil
  show ?case by (simp add: list_all2_conv_all_nth stored_as_refl)
next
  case (Cons c cs)
  have 1: "list_all2 stored_as (tracker_values (fold update_labeled_idxs cs (update_labeled_idxs c s)))
      (tracker_values (update_labeled_idxs c s) @ concat cs)"
    by (rule Cons.IH)
  have 2: "list_all2 stored_as (tracker_values (update_labeled_idxs c s) @ concat cs)
      ((tracker_values s @ c) @ concat cs)"
    by (intro list_all2_appendI tracker_values_update)
      (simp add: list_all2_conv_all_nth stored_as_refl)
  from 1 2 have "list_all2 stored_as
      (tracker_values (fold update_labeled_idxs cs (update_labeled_idxs c s)))
      ((tracker_values s @ c) @ concat cs)"
    by (rule list_all2_trans [rotated]) (rule stored_as_trans)
  then show ?case by simp
qed

lemma tracker_present_fold:
  "calls \<noteq> [] \<Longrightarrow> p_labeled_idxs (fold update_labeled_idxs calls s) \<noteq> None"
proof (induction calls arbitrary: s)
  case Nil
  then show ?case by simp
next
  case (Cons c cs)
  show ?case
  proof (cases "cs = []")
    case True
    then show ?thesis by (simp add: tracker_present_update)
  next
    case False
    from Cons.IH [OF False] show ?thesis by simp
  qed
qed

lemma len_fold: "ALDataset_len (fold update_labeled_idxs calls s) = ALDataset_len s"
  by (induction calls arbitrary: s) (simp_all add: len_update)

lemma unlabeled_idxs_present:
  assumes "p_labeled_idxs s = Some (d, xs)"
  shows "\<exists>d' ys. unlabeled_idxs s = Inr (Array1d d' ys)
          \<and> set ys = {0 ..< int (ALDataset_len s)} - set xs \<and> distinct ys"
proof -
  let ?ys = "filter (\<lambda>i. i \<notin> set xs) (map int [0 ..< ALDataset_len s])"
  have "unlabeled_idxs s = Inr (range_array ?ys)"
    using assms by (simp add: unlabeled_idxs_def labeled_idxs_def np_array_def py_list_def)
  moreover have "set (map int [0 ..< ALDataset_len s]) = {0 ..< int (ALDataset_len s)}"
    by (simp add: image_int_atLeastLessThan)
  then have "set ?ys = {0 ..< int (ALDataset_len s)} - set xs"
    by auto
  moreover have "distinct ?ys"
    by (simp add: distinct_map)
  ultimately show ?thesis by (auto simp: range_array_def)
qed

lemma unlabeled_idxs_absent:
  "p_labeled_idxs s = None \<Longrightarrow> unlabeled_idxs s = Inl TypeError"
  by (simp add: unlabeled_idxs_def labeled_idxs_def np_array_def py_list_def)

text \<open>Conversion to an integer element type, or to objects, changes no value.\<close>

lemma cast_exact:
  "cast Int64 = (\<lambda>x. x)" "cast UInt64 = (\<lambda>x. x)" "cast Object = (\<lambda>x. x)"
  by (simp_all add: fun_eq_iff cast_def)

lemma list_dtype_int64:
  assumes "new \<noteq> []" and "list_all fits_int64 new"
  shows "list_dtype new = Int64"
proof -
  have "list_all fits_int64 ys \<Longrightarrow> foldl promote Int64 (map elem_dtype ys) = Int64" for ys
    by (induction ys) (simp_all add: elem_dtype_def promote_def)
  with assms show ?thesis
    by (cases new) (simp_all add: list_dtype_def elem_dtype_def)
qed

lemma np_array_list_int64:
  "new \<noteq> [] \<Longrightarrow> list_all fits_int64 new \<Longrightarrow> np_array_list new = (Int64, new)"
  by (simp add: np_array_list_def list_dtype_int64 cast_exact)

text \<open>
  C4, as the claim states it, fails: an index is not always stored as it was
  given. On the demonstration object \<^verbatim>\<open>update_labeled_idxs([1, 2])\<close> builds
  an \<^verbatim>\<open>int64\<close> array, and \<^verbatim>\<open>np.array([2 ** 63 + 1])\<close> is a
  \<^verbatim>\<open>uint64\<close> array; \<^verbatim>\<open>np.concatenate\<close> converts both to
  \<^verbatim>\<open>float64\<close>, where \<open>2\<^sup>6\<^sup>3 + 1\<close> becomes \<open>2\<^sup>6\<^sup>3\<close>. So
  \<^verbatim>\<open>labeled_idxs()\<close> is the \<^verbatim>\<open>float64\<close> array of 1, 2 and \<open>2\<^sup>6\<^sup>3\<close>,
  whose third element is not the index \<open>c = 2\<^sup>6\<^sup>3 + 1\<close> that was submitted.
\<close>

theorem C4_uint64_index_rounded:
  "labeled_idxs (update_labeled_idxs [2 ^ 63 + 1] (update_labeled_idxs [1, 2] demo_ALDataset))
     = Inr (Array1d Float64 [1, 2, 2 ^ 63])"
proof -
  have r: "round_f64 1 = 1" "round_f64 2 = 2"
    by (simp_all add: round_f64_small)
  have r': "round_f64 9223372036854775809 = 9223372036854775808"
    by code_simp
  show ?thesis
    by (simp add: labeled_idxs_def update_labeled_idxs_def np_array_def np_array_list_def
        np_concatenate1_def list_dtype_def elem_dtype_def fits_int64_def promote_def cast_def
        r r' Let_def demo_ALDataset_def ALDataset_init_def)
qed

text \<open>
  C4, amended. On an \<^verbatim>\<open>ALDataset\<close> as its constructor leaves it,
  \<^verbatim>\<open>update_labeled_idxs([a, b])\<close> followed by
  \<^verbatim>\<open>update_labeled_idxs([c])\<close> makes \<^verbatim>\<open>labeled_idxs()\<close> the
  \<^verbatim>\<open>int64\<close> array \<open>[a, b, c]\<close>, in that order, whenever the three integers
  fit a signed 64-bit integer (equal ones, negative ones and ones beyond the
  training set included), and \<^verbatim>\<open>num_labeled()\<close> 3 whatever the three
  integers are. On any object, a non-empty update with such indices makes an
  absent tracker the \<^verbatim>\<open>int64\<close> array of them and appends them to an
  \<^verbatim>\<open>int64\<close> tracker: nothing is removed, reordered or checked. And any
  update, an empty one included, appends the new indices as they are to the
  values the tracker held when all of these are below \<open>2\<^sup>5\<^sup>3\<close> in absolute
  value.
\<close>

theorem C4_labeled_idxs_chronological:
  "(fits_int64 a \<and> fits_int64 b \<and> fits_int64 c \<longrightarrow>
      labeled_idxs (update_labeled_idxs [c] (update_labeled_idxs [a, b]
        (ALDataset_init tr va te trl val tel lt nc names mean std)))
       = Inr (Array1d Int64 [a, b, c]))
   \<and> num_labeled (update_labeled_idxs [c] (update_labeled_idxs [a, b]
        (ALDataset_init tr va te trl val tel lt nc names mean std)))
       = Inr 3
   \<and> (new \<noteq> [] \<and> list_all fits_int64 new \<and> p_labeled_idxs s = None \<longrightarrow>
        p_labeled_idxs (update_labeled_idxs new s) = Some (Int64, new))
   \<and> (new \<noteq> [] \<and> list_all fits_int64 new \<and> p_labeled_idxs s = Some (Int64, old) \<longrightarrow>
        p_labeled_idxs (update_labeled_idxs new s) = Some (Int64, old @ new))
   \<and> ((\<forall>x \<in> set (tracker_values s @ new). \<bar>x\<bar> < 2 ^ 53) \<longrightarrow>
        tracker_values (update_labeled_idxs new s) = tracker_values s @ new)"
proof (intro conjI impI)
  assume "fits_int64 a \<and> fits_int64 b \<and> fits_int64 c"
  then have "np_array_list [a, b] = (Int64, [a, b])" "np_array_list [c] = (Int64, [c])"
    by (simp_all add: np_array_list_int64)
  then show "labeled_idxs (update_labeled_idxs [c] (update_labeled_idxs [a, b]
        (ALDataset_init tr va te trl val tel lt nc names mean std)))
       = Inr (Array1d Int64 [a, b, c])"
    by (simp add: labeled_idxs_def update_labeled_idxs_def ALDataset_init_def np_array_def
        np_concatenate1_def promote_def cast_exact)
next
  show "num_labeled (update_labeled_idxs [c] (update_labeled_idxs [a, b]
        (ALDataset_init tr va te trl val tel lt nc names mean std)))
       = Inr 3"
    by (simp add: num_labeled_def update_labeled_idxs_def ALDataset_init_def
        np_array_list_def np_concatenate1_def Let_def)
next
  assume "new \<noteq> [] \<and> list_all fits_int64 new \<and> p_labeled_idxs s = None"
  then show "p_labeled_idxs (update_labeled_idxs new s) = Some (Int64, new)"
    by (simp add: update_labeled_idxs_def np_array_list_int64)
next
  assume "new \<noteq> [] \<and> list_all fits_int64 new \<and> p_labeled_idxs s = Some (Int64, old)"
  then show "p_labeled_idxs (update_labeled_idxs new s) = Some (Int64, old @ new)"
    by (simp add: update_labeled_idxs_def np_array_list_int64 np_concatenate1_def
        promote_def cast_exact)
next
  assume "\<forall>x \<in> set (tracker_values s @ new). \<bar>x\<bar> < 2 ^ 53"
  with tracker_values_update [of new s]
  show "tracker_values (update_labeled_idxs new s) = tracker_values s @ new"
    by (rule stored_as_exact)
qed

text \<open>
  On the demonstration object: the indices 5, \<open>2\<^sup>6\<^sup>2\<close>, 5; an update on the
  absent tracker and one on the tracker it leaves; and an update after an empty
  update, which leaves a \<^verbatim>\<open>float64\<close> tracker.
\<close>

theorem C4_labeled_idxs_chronological_witness:
  "fits_int64 5 \<and> fits_int64 (- 1) \<and> fits_int64 (2 ^ 62)
   \<and> labeled_idxs (update_labeled_idxs [5] (update_labeled_idxs [5, 2 ^ 62] demo_ALDataset))
       = Inr (Array1d Int64 [5, 2 ^ 62, 5])
   \<and> num_labeled (update_labeled_idxs [5] (update_labeled_idxs [5, 2 ^ 62] demo_ALDataset))
       = Inr 3
   \<and> p_labeled_idxs demo_ALDataset = None
   \<and> p_labeled_idxs (update_labeled_idxs [- 1, 2 ^ 62] demo_ALDataset)
       = Some (Int64, [- 1, 2 ^ 62])
   \<and> p_labeled_idxs (update_labeled_idxs [5, 5]
        (update_labeled_idxs [- 1, 2 ^ 62] demo_ALDataset))
       = Some (Int64, [- 1, 2 ^ 62, 5, 5])
   \<and> tracker_values (update_labeled_idxs [7] (update_labeled_idxs [] demo_ALDataset)) = [7]"
proof -
  have f: "fits_int64 5" "fits_int64 (- 1)" "fits_int64 (2 ^ 62)"
    by (simp_all add: fits_int64_def)
  have n: "p_labeled_idxs demo_ALDataset = None"
    by (simp add: demo_ALDataset_def ALDataset_init_def)
  have e: "tracker_values (update_labeled_idxs [] demo_ALDataset) = []"
    by (simp add: tracker_values_def update_labeled_idxs_def n np_array_list_def Let_def)
  note a = C4_labeled_idxs_chronological [where a = 5 and b = "2 ^ 62" and c = 5
      and tr = "demo_wrapper [0, 1, 2, 3]" and va = "demo_wrapper [0, 1]"
      and te = "demo_wrapper [0, 1]" and trl = "Labels [0, 1, 0, 1 :: nat]"
      and val = "Producer (\<lambda>_. [0, 1 :: nat])" and tel = "Labels [0, 1 :: nat]" and lt = MULTI_CLASS
      and nc = 2 and names = "[''even'', ''odd'']"
      and mean = "Reducer (\<lambda>rows :: int list. sum_list rows div int (length rows))"
      and std = "Reducer (\<lambda>rows :: int list. 1 + int (length rows))"
      and new = "[- 1, 2 ^ 62]" and s = demo_ALDataset and old = "[]"]
  note b = C4_labeled_idxs_chronological [where a = 5 and b = "2 ^ 62" and c = 5
      and tr = "demo_wrapper [0, 1, 2, 3]" and va = "demo_wrapper [0, 1]"
      and te = "demo_wrapper [0, 1]" and trl = "Labels [0, 1, 0, 1 :: nat]"
      and val = "Producer (\<lambda>_. [0, 1 :: nat])" and tel = "Labels [0, 1 :: nat]" and lt = MULTI_CLASS
      and nc = 2 and names = "[''even'', ''odd'']"
      and mean = "Reducer (\<lambda>rows :: int list. sum_list rows div int (length rows))"
      and std = "Reducer (\<lambda>rows :: int list. 1 + int (length rows))"
      and new = "[5, 5]" and s = "update_labeled_idxs [- 1, 2 ^ 62] demo_ALDataset"
      and old = "[- 1, 2 ^ 62]"]
  note c = C4_labeled_idxs_chronological [where a = 5 and b = "2 ^ 62" and c = 5
      and tr = "demo_wrapper [0, 1, 2, 3]" and va = "demo_wrapper [0, 1]"
      and te = "demo_wrapper [0, 1]" and trl = "Labels [0, 1, 0, 1 :: nat]"
      and val = "Producer (\<lambda>_. [0, 1 :: nat])" and tel = "Labels [0, 1 :: nat]" and lt = MULTI_CLASS
      and nc = 2 and names = "[''even'', ''odd'']"
      and mean = "Reducer (\<lambda>rows :: int list. sum_list rows div int (length rows))"
      and std = "Reducer (\<lambda>rows :: int list. 1 + int (length rows))"
      and new = "[7]" and s = "update_labeled_idxs [] demo_ALDataset"
      and old = "[]"]
  from a f n have 1: "labeled_idxs (update_labeled_idxs [5] (update_labeled_idxs [5, 2 ^ 62] demo_ALDataset))
       = Inr (Array1d Int64 [5, 2 ^ 62, 5])"
    "num_labeled (update_labeled_idxs [5] (update_labeled_idxs [5, 2 ^ 62] demo_ALDataset))
       = Inr 3"
    "p_labeled_idxs (update_labeled_idxs [- 1, 2 ^ 62] demo_ALDataset)
       = Some (Int64, [- 1, 2 ^ 62])"
    by (simp_all add: demo_ALDataset_def)
  from b f 1(3) have 2: "p_labeled_idxs (update_labeled_idxs [5, 5]
        (update_labeled_idxs [- 1, 2 ^ 62] demo_ALDataset))
       = Some (Int64, [- 1, 2 ^ 62, 5, 5])"
    by simp
  from c e have 3: "tracker_values (update_labeled_idxs [7] (update_labeled_idxs [] demo_ALDataset)) = [7]"
    by simp
  from f n 1 2 3 show ?thesis by blast
qed

text \<open>
  C5. After any non-empty sequence of \<^verbatim>\<open>update_labeled_idxs\<close> calls, on any
  object, \<^verbatim>\<open>labeled_idxs()\<close> and \<^verbatim>\<open>unlabeled_idxs()\<close> return arrays,
  and the second has no duplicates and has as elements exactly the indices
  \<open>0, \<dots>, train_length - 1\<close> that are not elements of the first. The elements
  of the first are, one by one and in order, the values the tracker held before
  followed by the indices of the calls, repetitions included, each as it was
  stored: unchanged, or of absolute value at least \<open>2\<^sup>5\<^sup>3\<close> before and after;
  all are unchanged when all are below \<open>2\<^sup>5\<^sup>3\<close> in absolute value. When the
  training set has at most \<open>2\<^sup>5\<^sup>3\<close> items, the elements of the second array
  are exactly the indices \<open>0, \<dots>, train_length - 1\<close> that are not among the
  submitted ones.
\<close>

theorem C5_unlabeled_idxs_complement:
  assumes "calls \<noteq> []"
  shows "\<exists>d xs d' ys.
            labeled_idxs (fold update_labeled_idxs calls s) = Inr (Array1d d xs)
          \<and> list_all2 stored_as xs (tracker_values s @ concat calls)
          \<and> ((\<forall>x \<in> set (tracker_values s @ concat calls). \<bar>x\<bar> < 2 ^ 53)
               \<longrightarrow> xs = tracker_values s @ concat calls)
          \<and> unlabeled_idxs (fold update_labeled_idxs calls s) = Inr (Array1d d' ys)
          \<and> set ys = {0 ..< int (ALDataset_len s)} - set xs
          \<and> distinct ys
          \<and> (int (ALDataset_len s) \<le> 2 ^ 53
               \<longrightarrow> set ys = {0 ..< int (ALDataset_len s)}
                              - set (tracker_values s @ concat calls))"
proof -
  let ?s = "fold update_labeled_idxs calls s"
  let ?sub = "tracker_values s @ concat calls"
  obtain d xs where xs: "p_labeled_idxs ?s = Some (d, xs)"
    using tracker_present_fold [OF assms, of s] by (cases "p_labeled_idxs ?s") auto
  then have tv: "tracker_values ?s = xs" by (simp add: tracker_values_def)
  have st: "list_all2 stored_as xs ?sub"
    using tracker_values_fold [of calls s] by (simp add: tv)
  from unlabeled_idxs_present [OF xs] obtain d' ys where ys:
    "unlabeled_idxs ?s = Inr (Array1d d' ys)"
    "set ys = {0 ..< int (ALDataset_len s)} - set xs" "distinct ys"
    by (auto simp: len_fold)
  have lab: "labeled_idxs ?s = Inr (Array1d d xs)"
    using xs by (simp add: labeled_idxs_def np_array_def)
  have ex: "(\<forall>x \<in> set ?sub. \<bar>x\<bar> < 2 ^ 53) \<longrightarrow> xs = ?sub"
    using stored_as_exact [OF st] by blast
  have sub: "int (ALDataset_len s) \<le> 2 ^ 53
      \<longrightarrow> set ys = {0 ..< int (ALDataset_len s)} - set ?sub"
  proof
    assume n: "int (ALDataset_len s) \<le> 2 ^ 53"
    have "i \<in> set xs \<longleftrightarrow> i \<in> set ?sub" if "i \<in> {0 ..< int (ALDataset_len s)}" for i
      using that n by (intro stored_as_member [OF st]) auto
    with ys(2) show "set ys = {0 ..< int (ALDataset_len s)} - set ?sub" by blast
  qed
  from lab st ex ys sub show ?thesis by blast
qed

theorem C5_unlabeled_idxs_complement_witness:
  "[[1, 1], [3 :: int]] \<noteq> []
   \<and> labeled_idxs (fold update_labeled_idxs [[1, 1], [3]] demo_ALDataset)
       = Inr (Array1d Int64 [1, 1, 3])
   \<and> unlabeled_idxs (fold update_labeled_idxs [[1, 1], [3]] demo_ALDataset)
       = Inr (Array1d Int64 [0, 2])
   \<and> set [0, 2] = {0 ..< int (ALDataset_len demo_ALDataset)} - set [1, 1, 3 :: int]
   \<and> distinct [0, 2 :: int]"
  using C5_unlabeled_idxs_complement [of "[[1, 1], [3]]" demo_ALDataset]
  by (simp add: labeled_idxs_def unlabeled_idxs_def update_labeled_idxs_def np_array_def
      np_array_list_def np_concatenate1_def list_dtype_def elem_dtype_def fits_int64_def
      promote_def cast_def Let_def range_array_def
      py_list_def demo_ALDataset_def ALDataset_init_def ALDataset_len_def demo_wrapper_def
      TransformDataset_len_def TransformDataset_init_def)

text \<open>
  C7, as the claim states it, fails: on the demonstration object, whose tracker is
  absent, \<^verbatim>\<open>labeled_idxs()\<close> does not raise. It returns what
  \<^verbatim>\<open>np.array(None)\<close> builds, a zero-dimensional array holding \<^verbatim>\<open>None\<close>.
\<close>

theorem C7_labeled_idxs_does_not_fail:
  "p_labeled_idxs demo_ALDataset = None
   \<and> labeled_idxs demo_ALDataset = Inr Array0d_None"
  by (simp add: labeled_idxs_def np_array_def demo_ALDataset_def ALDataset_init_def)

text \<open>
  C7, amended. While the tracker is absent, \<^verbatim>\<open>num_labeled()\<close> fails, with
  the \<^verbatim>\<open>TypeError\<close> of \<^verbatim>\<open>len(None)\<close>, and \<^verbatim>\<open>labeled_idxs()\<close>
  returns the zero-dimensional array holding \<^verbatim>\<open>None\<close>.
\<close>

theorem C7_absent_tracker:
  "p_labeled_idxs s = None \<Longrightarrow>
   num_labeled s = Inl TypeError \<and> labeled_idxs s = Inr Array0d_None"
  by (simp add: num_labeled_def labeled_idxs_def np_array_def)

theorem C7_absent_tracker_witness:
  "p_labeled_idxs demo_ALDataset = None
   \<and> num_labeled demo_ALDataset = Inl TypeError
   \<and> labeled_idxs demo_ALDataset = Inr Array0d_None"
  using C7_absent_tracker [of demo_ALDataset]
  by (simp add: demo_ALDataset_def ALDataset_init_def)

section \<open>Properties of the embeddings\<close>

lemma setattr_emb_frame:
  "p_train_emb_mean (setattr_emb sp e s) = p_train_emb_mean s"
  "p_train_emb_std (setattr_emb sp e s) = p_train_emb_std s"
  "p_train_labels (setattr_emb sp e s) = p_train_labels s"
  "p_val_labels (setattr_emb sp e s) = p_val_labels s"
  "p_test_labels (setattr_emb sp e s) = p_test_labels s"
  "num_classes (setattr_emb sp e s) = num_classes s"
  "p_labeled_idxs (setattr_emb sp e s) = p_labeled_idxs s"
  "getattr_dataset sp' (setattr_emb sp e s) = getattr_dataset sp' s"
  by (cases sp; cases sp'; simp)+

lemma setattr_emb_embs:
  "train_emb (setattr_emb sp e s) = (if sp = Train then Some e else train_emb s)"
  "val_emb (setattr_emb sp e s) = (if sp = Val then Some e else val_emb s)"
  "test_emb (setattr_emb sp e s) = (if sp = Test then Some e else test_emb s)"
  by (cases sp; simp)+

text \<open>An update, completed or not, touches nothing but the embeddings.\<close>

lemma update_splits_frame:
  "update_splits gf epoch us sps s = (s', r) \<Longrightarrow>
     p_train_emb_mean s' = p_train_emb_mean s \<and> p_train_emb_std s' = p_train_emb_std s
     \<and> p_train_labels s' = p_train_labels s \<and> p_val_labels s' = p_val_labels s
     \<and> p_test_labels s' = p_test_labels s \<and> num_classes s' = num_classes s
     \<and> p_labeled_idxs s' = p_labeled_idxs s"
proof (induction sps arbitrary: s)
  case Nil
  then show ?case by simp
next
  case (Cons sp sps)
  show ?case
  proof (cases "gf (getattr_dataset sp s) sp epoch us")
    case (Inl e)
    with Cons.prems show ?thesis by simp
  next
    case (Inr feat)
    with Cons.prems have "update_splits gf epoch us sps (setattr_emb sp feat s) = (s', r)"
      by simp
    from Cons.IH [OF this] show ?thesis by (simp add: setattr_emb_frame)
  qed
qed

text \<open>An embedding that is set stays set: no update stores \<^verbatim>\<open>None\<close>.\<close>

lemma update_splits_keeps:
  "update_splits gf epoch us sps s = (s', r) \<Longrightarrow>
     (train_emb s \<noteq> None \<longrightarrow> train_emb s' \<noteq> None)
     \<and> (val_emb s \<noteq> None \<longrightarrow> val_emb s' \<noteq> None)
     \<and> (test_emb s \<noteq> None \<longrightarrow> test_emb s' \<noteq> None)"
proof (induction sps arbitrary: s)
  case Nil
  then show ?case by simp
next
  case (Cons sp sps)
  show ?case
  proof (cases "gf (getattr_dataset sp s) sp epoch us")
    case (Inl e)
    with Cons.prems show ?thesis by simp
  next
    case (Inr feat)
    with Cons.prems have "update_splits gf epoch us sps (setattr_emb sp feat s) = (s', r)"
      by simp
    from Cons.IH [OF this] show ?thesis by (auto simp: setattr_emb_embs)
  qed
qed

lemma update_embedding_dataset_completed:
  assumes "update_embedding_dataset epoch gf us s = (s', None)"
  shows "\<exists>tr va te. gf (train_dataset s) Train epoch us = Inr tr
           \<and> gf (val_dataset s) Val epoch us = Inr va
           \<and> gf (test_dataset s) Test epoch us = Inr te
           \<and> s' = s\<lparr>train_emb := Some tr, val_emb := Some va, test_emb := Some te\<rparr>"
  using assms
  by (auto simp: update_embedding_dataset_def split: sum.splits)

lemma get_embedding_datasets_present:
  assumes "train_emb s = Some tr" "val_emb s = Some va" "test_emb s = Some te"
  shows "get_embedding_datasets nrm s =
    (s\<lparr>p_train_labels := realize_labels (p_train_labels s),
       p_val_labels := realize_labels (p_val_labels s),
       p_test_labels := realize_labels (p_test_labels s),
       p_train_emb_mean := Stat (realize_stat (p_train_emb_mean s) tr),
       p_train_emb_std := Stat (realize_stat (p_train_emb_std s) tr)\<rparr>,
     build_datasets nrm (realize_stat (p_train_emb_mean s) tr)
       (realize_stat (p_train_emb_std s) tr) (num_classes s) tr va te
       (realize_labels (p_train_labels s)) (realize_labels (p_val_labels s))
       (realize_labels (p_test_labels s)))"
  using assms by (simp add: get_embedding_datasets_def Let_def)

lemma get_embedding_datasets_absent:
  assumes "train_emb s = None \<or> val_emb s = None \<or> test_emb s = None"
  shows "get_embedding_datasets nrm s = (s, Inl UninitializedEmbedding)"
  using assms by (auto simp: get_embedding_datasets_def split: option.splits)

lemma raised_by_numpy_not_uninitialized: "raised_by_numpy e \<noteq> UninitializedEmbedding"
  by (cases e) (simp_all add: raised_by_numpy_def)

lemma flat_inputs_not_uninitialized: "flat_inputs nrm m sd a \<noteq> Inl UninitializedEmbedding"
  by (simp add: flat_inputs_def raised_by_numpy_not_uninitialized split: sum.splits)

lemma train_inputs_not_uninitialized: "train_inputs nrm m sd e \<noteq> Inl UninitializedEmbedding"
  using flat_inputs_not_uninitialized [of nrm m sd]
  by (auto simp: train_inputs_def split: emb.splits sum.splits)

lemma plain_inputs_not_uninitialized: "plain_inputs nrm m sd e \<noteq> Inl UninitializedEmbedding"
  using flat_inputs_not_uninitialized [of nrm m sd]
  by (auto simp: plain_inputs_def raised_by_numpy_not_uninitialized
      split: emb.splits sum.splits)

lemma DatasetOnMemory_init_not_uninitialized:
  "DatasetOnMemory_init X y n \<noteq> Inl UninitializedEmbedding"
  by (simp add: DatasetOnMemory_init_def split: option.splits)

lemma build_datasets_not_uninitialized:
  "build_datasets nrm m sd nc tr va te trl val tel \<noteq> Inl UninitializedEmbedding"
  by (auto simp: build_datasets_def DatasetOnMemory_init_not_uninitialized
      plain_inputs_not_uninitialized train_inputs_not_uninitialized split: sum.splits)

lemma realize_labels_idem: "realize_labels (realize_labels l) = realize_labels l"
  by (cases l) (simp_all add: realize_labels_def)

lemma realize_stat_Stat: "realize_stat (Stat v) e = v"
  by (simp add: realize_stat_def)

text \<open>When a constructor call returns, and what.\<close>

lemma DatasetOnMemory_init_Inr:
  "(DatasetOnMemory_init X (labels_array l) n = Inr d) =
     (\<exists>ys. l = Labels ys \<and> same_length X ys
        \<and> d = \<lparr>dom_X = X, dom_y = ys, dom_n_class = n, dom_return_indices = False\<rparr>)"
  by (cases l) (auto simp: DatasetOnMemory_init_def labels_array_def)

text \<open>When the three constructor calls return, and what.\<close>

lemma build_datasets_Inr:
  "(build_datasets nrm m sd nc tr va te trl val tel = Inr (d1, d2, d3)) =
     (\<exists>x1 x2 x3 y1 y2 y3.
        train_inputs nrm m sd tr = Inr x1 \<and> plain_inputs nrm m sd va = Inr x2
        \<and> plain_inputs nrm m sd te = Inr x3
        \<and> trl = Labels y1 \<and> val = Labels y2 \<and> tel = Labels y3
        \<and> same_length x1 y1 \<and> same_length x2 y2 \<and> same_length x3 y3
        \<and> d1 = \<lparr>dom_X = x1, dom_y = y1, dom_n_class = nc, dom_return_indices = False\<rparr>
        \<and> d2 = \<lparr>dom_X = x2, dom_y = y2, dom_n_class = nc, dom_return_indices = False\<rparr>
        \<and> d3 = \<lparr>dom_X = x3, dom_y = y3, dom_n_class = nc, dom_return_indices = False\<rparr>)"
proof (cases "train_inputs nrm m sd tr")
  case (Inl e)
  then show ?thesis by (simp add: build_datasets_def)
next
  case x1: (Inr x1)
  show ?thesis
  proof (cases "DatasetOnMemory_init x1 (labels_array trl) nc")
    case (Inl e)
    then show ?thesis
      using DatasetOnMemory_init_Inr [of x1 trl nc] by (auto simp: build_datasets_def x1)
  next
    case t1: (Inr t1)
    show ?thesis
    proof (cases "plain_inputs nrm m sd va")
      case (Inl e)
      then show ?thesis by (simp add: build_datasets_def x1 t1)
    next
      case x2: (Inr x2)
      show ?thesis
      proof (cases "DatasetOnMemory_init x2 (labels_array val) nc")
        case (Inl e)
        then show ?thesis
          using DatasetOnMemory_init_Inr [of x2 val nc] by (auto simp: build_datasets_def x1 t1 x2)
      next
        case t2: (Inr t2)
        show ?thesis
        proof (cases "plain_inputs nrm m sd te")
          case (Inl e)
          then show ?thesis by (simp add: build_datasets_def x1 t1 x2 t2)
        next
          case x3: (Inr x3)
          show ?thesis
            using DatasetOnMemory_init_Inr [of x1 trl nc t1] t1
              DatasetOnMemory_init_Inr [of x2 val nc t2] t2
              DatasetOnMemory_init_Inr [of x3 tel nc d3]
            by (auto simp: build_datasets_def x1 x2 x3 split: sum.splits)
        qed
      qed
    qed
  qed
qed

lemma demo_initialized:
  "update_embedding_dataset 0 demo_get_feature False demo_ALDataset =
     (demo_ALDataset\<lparr>train_emb := Some (Single [0, 1, 2, 3]),
        val_emb := Some (Single [0, 1]), test_emb := Some (Single [0, 1])\<rparr>, None)"
  by (simp add: update_embedding_dataset_def demo_defs)

text \<open>
  C3. \<^verbatim>\<open>update_embedding_dataset\<close> asks the extractor for the training split
  first and for the validation split next. When the first call returns an
  embedding and the second raises, the method ends with that exception, and the
  object it leaves is the one it found with \<^verbatim>\<open>train_emb\<close> replaced by the new
  embedding: \<^verbatim>\<open>val_emb\<close> and \<^verbatim>\<open>test_emb\<close> are as before, set or not.
\<close>

theorem C3_no_rollback:
  assumes "gf (train_dataset s) Train epoch us = Inr e"
    and "gf (val_dataset s) Val epoch us = Inl err"
  shows "update_embedding_dataset epoch gf us s = (s\<lparr>train_emb := Some e\<rparr>, Some err)
    \<and> train_emb (fst (update_embedding_dataset epoch gf us s)) = Some e
    \<and> val_emb (fst (update_embedding_dataset epoch gf us s)) = val_emb s
    \<and> test_emb (fst (update_embedding_dataset epoch gf us s)) = test_emb s"
  using assms by (simp add: update_embedding_dataset_def)

theorem C3_no_rollback_witness:
  "failing_get_feature (train_dataset demo_ALDataset) Train 0 False = Inr (Single [0, 1, 2, 3])
   \<and> failing_get_feature (val_dataset demo_ALDataset) Val 0 False = Inl (Raised ''out of memory'')
   \<and> update_embedding_dataset 0 failing_get_feature False demo_ALDataset
      = (demo_ALDataset\<lparr>train_emb := Some (Single [0, 1, 2, 3])\<rparr>, Some (Raised ''out of memory''))
   \<and> val_emb (fst (update_embedding_dataset 0 failing_get_feature False demo_ALDataset)) = None
   \<and> test_emb (fst (update_embedding_dataset 0 failing_get_feature False demo_ALDataset)) = None"
  using C3_no_rollback [of failing_get_feature demo_ALDataset 0 False
      "Single [0, 1, 2, 3]" "Raised ''out of memory''"]
  by (simp add: failing_get_feature_def demo_defs)

text \<open>
  C1. Let the three embeddings be set when \<^verbatim>\<open>get_embedding_datasets()\<close> is
  called. The call stores the two statistics as values: the reducer applied to
  the training embedding of that moment (to its first component when it is a
  pair), or the value the object was built with. Whatever
  \<^verbatim>\<open>update_embedding_dataset\<close> call follows, completed or not, the stored
  statistics are the same after it, the embeddings are still set, and the next
  \<^verbatim>\<open>get_embedding_datasets()\<close> leaves the statistics as they are and builds
  its datasets from the new embeddings with those same statistics.
\<close>

theorem C1_statistics_frozen:
  fixes s :: "('x, 'y, 'm, 'v, 's, 'l, 't) ALDataset"
    and nrm :: "('v, 's) numpy"
    and gf :: "('x, 'y, 'm, 'v) get_feature" and epoch :: int and us :: bool
  defines "s1 \<equiv> fst (get_embedding_datasets nrm s)"
  defines "s2 \<equiv> fst (update_embedding_dataset epoch gf us (fst (get_embedding_datasets nrm s)))"
  assumes "train_emb s = Some tr" and "val_emb s = Some va" and "test_emb s = Some te"
  shows "\<exists>m sd tr' va' te'.
      m = realize_stat (p_train_emb_mean s) tr
    \<and> sd = realize_stat (p_train_emb_std s) tr
    \<and> p_train_emb_mean s1 = Stat m \<and> p_train_emb_std s1 = Stat sd
    \<and> p_train_emb_mean s2 = Stat m \<and> p_train_emb_std s2 = Stat sd
    \<and> train_emb s2 = Some tr' \<and> val_emb s2 = Some va' \<and> test_emb s2 = Some te'
    \<and> p_train_emb_mean (fst (get_embedding_datasets nrm s2)) = Stat m
    \<and> p_train_emb_std (fst (get_embedding_datasets nrm s2)) = Stat sd
    \<and> snd (get_embedding_datasets nrm s2) =
        build_datasets nrm m sd (num_classes s) tr' va' te'
          (realize_labels (p_train_labels s)) (realize_labels (p_val_labels s))
          (realize_labels (p_test_labels s))"
proof -
  let ?m = "realize_stat (p_train_emb_mean s) tr"
  let ?sd = "realize_stat (p_train_emb_std s) tr"
  have s1: "p_train_emb_mean s1 = Stat ?m" "p_train_emb_std s1 = Stat ?sd"
    "p_train_labels s1 = realize_labels (p_train_labels s)"
    "p_val_labels s1 = realize_labels (p_val_labels s)"
    "p_test_labels s1 = realize_labels (p_test_labels s)"
    "num_classes s1 = num_classes s"
    "train_emb s1 \<noteq> None" "val_emb s1 \<noteq> None" "test_emb s1 \<noteq> None"
    using assms(3-5) by (simp_all add: s1_def get_embedding_datasets_present)
  obtain r where upd: "update_embedding_dataset epoch gf us s1 = (s2, r)"
    by (simp add: s1_def s2_def prod_eq_iff)
  then have upd': "update_splits gf epoch us [Train, Val, Test] s1 = (s2, r)"
    by (simp add: update_embedding_dataset_def)
  from update_splits_frame [OF upd'] s1
  have s2: "p_train_emb_mean s2 = Stat ?m" "p_train_emb_std s2 = Stat ?sd"
    "p_train_labels s2 = realize_labels (p_train_labels s)"
    "p_val_labels s2 = realize_labels (p_val_labels s)"
    "p_test_labels s2 = realize_labels (p_test_labels s)"
    "num_classes s2 = num_classes s"
    by simp_all
  from update_splits_keeps [OF upd'] s1
  obtain tr' va' te' where embs:
    "train_emb s2 = Some tr'" "val_emb s2 = Some va'" "test_emb s2 = Some te'"
    by auto
  have "p_train_emb_mean (fst (get_embedding_datasets nrm s2)) = Stat ?m"
    "p_train_emb_std (fst (get_embedding_datasets nrm s2)) = Stat ?sd"
    "snd (get_embedding_datasets nrm s2) =
        build_datasets nrm ?m ?sd (num_classes s) tr' va' te'
          (realize_labels (p_train_labels s)) (realize_labels (p_val_labels s))
          (realize_labels (p_test_labels s))"
    by (simp_all add: get_embedding_datasets_present [OF embs] s2 realize_stat_Stat
        realize_labels_idem)
  with s1(1,2) s2(1,2) embs show ?thesis by blast
qed

text \<open>
  In the demonstration the embeddings of epoch 0 give the statistics 1 and 5; the
  embeddings of epoch 10 would give the mean 11, and the second call keeps 1.
\<close>

theorem C1_statistics_frozen_witness:
  "train_emb (fst (update_embedding_dataset 0 demo_get_feature False demo_ALDataset))
     = Some (Single [0, 1, 2, 3])
   \<and> val_emb (fst (update_embedding_dataset 0 demo_get_feature False demo_ALDataset))
     = Some (Single [0, 1])
   \<and> test_emb (fst (update_embedding_dataset 0 demo_get_feature False demo_ALDataset))
     = Some (Single [0, 1])
   \<and> p_train_emb_mean (fst (get_embedding_datasets demo_nrm
        (fst (update_embedding_dataset 0 demo_get_feature False demo_ALDataset)))) = Stat 1
   \<and> p_train_emb_std (fst (get_embedding_datasets demo_nrm
        (fst (update_embedding_dataset 0 demo_get_feature False demo_ALDataset)))) = Stat 5
   \<and> train_emb (fst (update_embedding_dataset 10 demo_get_feature False
        (fst (get_embedding_datasets demo_nrm
          (fst (update_embedding_dataset 0 demo_get_feature False demo_ALDataset))))))
     = Some (Single [10, 11, 12, 13])
   \<and> p_train_emb_mean (fst (get_embedding_datasets demo_nrm
        (fst (update_embedding_dataset 10 demo_get_feature False
          (fst (get_embedding_datasets demo_nrm
            (fst (update_embedding_dataset 0 demo_get_feature False demo_ALDataset))))))))
     = Stat 1
   \<and> p_train_emb_std (fst (get_embedding_datasets demo_nrm
        (fst (update_embedding_dataset 10 demo_get_feature False
          (fst (get_embedding_datasets demo_nrm
            (fst (update_embedding_dataset 0 demo_get_feature False demo_ALDataset))))))))
     = Stat 5
   \<and> realize_stat (p_train_emb_mean demo_ALDataset) (Single [10, 11, 12, 13]) = 11"
  using C1_statistics_frozen
    [of "fst (update_embedding_dataset 0 demo_get_feature False demo_ALDataset)"
        "Single [0, 1, 2, 3]" "Single [0, 1]" "Single [0, 1]" demo_nrm 10 demo_get_feature False]
  by (simp add: demo_initialized get_embedding_datasets_def update_embedding_dataset_def
      realize_stat_def first_view_def Let_def demo_defs)

section \<open>The same properties of ALBench's copy\<close>

lemma setattr_emb_ALBench_frame:
  "al_p_train_emb_mean (setattr_emb_ALBench sp e s) = al_p_train_emb_mean s"
  "al_p_train_emb_std (setattr_emb_ALBench sp e s) = al_p_train_emb_std s"
  "getattr_dataset_ALBench sp' (setattr_emb_ALBench sp e s) = getattr_dataset_ALBench sp' s"
  by (cases sp; cases sp'; simp)+

lemma setattr_emb_ALBench_embs:
  "al_train_emb (setattr_emb_ALBench sp e s) = (if sp = Train then Some e else al_train_emb s)"
  "al_val_emb (setattr_emb_ALBench sp e s) = (if sp = Val then Some e else al_val_emb s)"
  "al_test_emb (setattr_emb_ALBench sp e s) = (if sp = Test then Some e else al_test_emb s)"
  by (cases sp; simp)+

lemma update_splits_ALBench_frame:
  "update_splits_ALBench gf epoch sps s = (s', r) \<Longrightarrow>
     al_p_train_emb_mean s' = al_p_train_emb_mean s
     \<and> al_p_train_emb_std s' = al_p_train_emb_std s
     \<and> (al_train_emb s \<noteq> None \<longrightarrow> al_train_emb s' \<noteq> None)
     \<and> (al_val_emb s \<noteq> None \<longrightarrow> al_val_emb s' \<noteq> None)
     \<and> (al_test_emb s \<noteq> None \<longrightarrow> al_test_emb s' \<noteq> None)"
proof (induction sps arbitrary: s)
  case Nil
  then show ?case by simp
next
  case (Cons sp sps)
  show ?case
  proof (cases "gf (getattr_dataset_ALBench sp s) sp epoch")
    case (Inl e)
    with Cons.prems show ?thesis by simp
  next
    case (Inr feat)
    with Cons.prems
    have "update_splits_ALBench gf epoch sps (setattr_emb_ALBench sp feat s) = (s', r)"
      by simp
    from Cons.IH [OF this] show ?thesis
      by (auto simp: setattr_emb_ALBench_frame setattr_emb_ALBench_embs)
  qed
qed

lemma get_embedding_datasets_ALBench_statistics:
  assumes "al_train_emb s = Some tr" "al_val_emb s = Some va" "al_test_emb s = Some te"
  shows "al_p_train_emb_mean (fst (get_embedding_datasets_ALBench nrm s))
           = Stat (realize_stat (al_p_train_emb_mean s) (Single tr))"
    and "al_p_train_emb_std (fst (get_embedding_datasets_ALBench nrm s))
           = Stat (realize_stat (al_p_train_emb_std s) (Single tr))"
    and "al_train_emb (fst (get_embedding_datasets_ALBench nrm s)) = Some tr"
    and "al_val_emb (fst (get_embedding_datasets_ALBench nrm s)) = Some va"
    and "al_test_emb (fst (get_embedding_datasets_ALBench nrm s)) = Some te"
  using assms by (simp_all add: get_embedding_datasets_ALBench_def Let_def)

text \<open>C1 for ALBench: the statistics of the first call survive an update and a second call.\<close>

lemma statistics_frozen_ALBench:
  assumes "al_train_emb s = Some tr" "al_val_emb s = Some va" "al_test_emb s = Some te"
  shows "al_p_train_emb_mean (fst (get_embedding_datasets_ALBench nrm
           (fst (update_embedding_dataset_ALBench epoch gf
             (fst (get_embedding_datasets_ALBench nrm s))))))
         = Stat (realize_stat (al_p_train_emb_mean s) (Single tr))
       \<and> al_p_train_emb_std (fst (get_embedding_datasets_ALBench nrm
           (fst (update_embedding_dataset_ALBench epoch gf
             (fst (get_embedding_datasets_ALBench nrm s))))))
         = Stat (realize_stat (al_p_train_emb_std s) (Single tr))"
proof -
  let ?s1 = "fst (get_embedding_datasets_ALBench nrm s)"
  let ?s2 = "fst (update_embedding_dataset_ALBench epoch gf ?s1)"
  note s1 = get_embedding_datasets_ALBench_statistics [OF assms, of nrm]
  obtain r where "update_splits_ALBench gf epoch [Train, Val, Test] ?s1 = (?s2, r)"
    by (simp add: update_embedding_dataset_ALBench_def prod_eq_iff)
  from update_splits_ALBench_frame [OF this] s1
  have s2: "al_p_train_emb_mean ?s2 = Stat (realize_stat (al_p_train_emb_mean s) (Single tr))"
    "al_p_train_emb_std ?s2 = Stat (realize_stat (al_p_train_emb_std s) (Single tr))"
    and "al_train_emb ?s2 \<noteq> None" "al_val_emb ?s2 \<noteq> None" "al_test_emb ?s2 \<noteq> None"
    by simp_all
  then obtain tr' va' te' where
    "al_train_emb ?s2 = Some tr'" "al_val_emb ?s2 = Some va'" "al_test_emb ?s2 = Some te'"
    by auto
  from get_embedding_datasets_ALBench_statistics(1,2) [OF this, of nrm]
  show ?thesis by (simp add: s2 realize_stat_Stat)
qed

text \<open>A completed update of ALBench's copy has stored the three embeddings.\<close>

lemma update_embedding_dataset_ALBench_completed:
  assumes "update_embedding_dataset_ALBench epoch gf s = (s', None)"
  shows "\<exists>tr va te. gf (al_train_dataset s) Train epoch = Inr tr
           \<and> gf (al_val_dataset s) Val epoch = Inr va
           \<and> gf (al_test_dataset s) Test epoch = Inr te
           \<and> s' = s\<lparr>al_train_emb := Some tr, al_val_emb := Some va, al_test_emb := Some te\<rparr>"
  using assms
  by (auto simp: update_embedding_dataset_ALBench_def split: sum.splits)

lemma get_embedding_datasets_ALBench_present:
  assumes "al_train_emb s = Some tr" "al_val_emb s = Some va" "al_test_emb s = Some te"
  shows "snd (get_embedding_datasets_ALBench nrm s) =
     build_datasets_ALBench nrm (realize_stat (al_p_train_emb_mean s) (Single tr))
       (realize_stat (al_p_train_emb_std s) (Single tr)) (al_num_classes s) tr va te
       (realize_labels (al_p_train_labels s)) (realize_labels (al_p_val_labels s))
       (realize_labels (al_p_test_labels s)) (realize_labels (al_p_train_weak_labels s))
       (realize_labels (al_p_val_weak_labels s)) (realize_labels (al_p_test_weak_labels s))"
  using assms by (simp add: get_embedding_datasets_ALBench_def Let_def)

lemma DatasetOnMemory_ALBench_init_not_uninitialized:
  "DatasetOnMemory_ALBench_init X y n w \<noteq> Inl UninitializedEmbedding"
  by (simp add: DatasetOnMemory_ALBench_init_def split: option.splits labels.splits)

lemma build_datasets_ALBench_not_uninitialized:
  "build_datasets_ALBench nrm m sd nc tr va te trl val tel trw vaw tew
     \<noteq> Inl UninitializedEmbedding"
  using flat_inputs_not_uninitialized [of nrm m sd]
  by (auto simp: build_datasets_ALBench_def DatasetOnMemory_ALBench_init_not_uninitialized
      split: sum.splits)

text \<open>C2 for ALBench: the uninitialized-embedding exception, and no other use of it.\<close>

lemma uninitialized_embedding_ALBench:
  "(snd (get_embedding_datasets_ALBench nrm s) = Inl UninitializedEmbedding)
     = (al_train_emb s = None \<or> al_val_emb s = None \<or> al_test_emb s = None)"
proof (cases "al_train_emb s = None \<or> al_val_emb s = None \<or> al_test_emb s = None")
  case True
  then show ?thesis
    by (auto simp: get_embedding_datasets_ALBench_def split: option.splits)
next
  case False
  then obtain x y z where "al_train_emb s = Some x" "al_val_emb s = Some y"
      "al_test_emb s = Some z"
    by auto
  then show ?thesis
    by (simp add: get_embedding_datasets_ALBench_present
        build_datasets_ALBench_not_uninitialized)
qed

text \<open>When the constructor calls of ALBench's copy return, and what.\<close>

lemma DatasetOnMemory_ALBench_init_Inr:
  "(DatasetOnMemory_ALBench_init X (labels_array l) n w = Inr d) =
     (\<exists>ys. l = Labels ys \<and> length X = length ys
        \<and> (w = NoLabels \<or> (\<exists>ms. w = Labels ms \<and> length X = length ms))
        \<and> d = \<lparr>al_X = X, al_y = ys, al_n_class = n, al_meta_data = labels_array w\<rparr>)"
  by (cases l; cases w) (auto simp: DatasetOnMemory_ALBench_init_def labels_array_def)

lemma build_datasets_ALBench_Inr:
  "(build_datasets_ALBench nrm m sd nc tr va te trl val tel trw vaw tew = Inr (d1, d2, d3)) =
     (\<exists>x1 x2 x3 y1 y2 y3.
        flat_inputs nrm m sd tr = Inr x1 \<and> flat_inputs nrm m sd va = Inr x2
        \<and> flat_inputs nrm m sd te = Inr x3
        \<and> trl = Labels y1 \<and> val = Labels y2 \<and> tel = Labels y3
        \<and> length x1 = length y1 \<and> length x2 = length y2 \<and> length x3 = length y3
        \<and> (trw = NoLabels \<or> (\<exists>ms. trw = Labels ms \<and> length x1 = length ms))
        \<and> (vaw = NoLabels \<or> (\<exists>ms. vaw = Labels ms \<and> length x2 = length ms))
        \<and> (tew = NoLabels \<or> (\<exists>ms. tew = Labels ms \<and> length x3 = length ms))
        \<and> d1 = \<lparr>al_X = x1, al_y = y1, al_n_class = nc, al_meta_data = labels_array trw\<rparr>
        \<and> d2 = \<lparr>al_X = x2, al_y = y2, al_n_class = nc, al_meta_data = labels_array vaw\<rparr>
        \<and> d3 = \<lparr>al_X = x3, al_y = y3, al_n_class = nc, al_meta_data = labels_array tew\<rparr>)"
proof (cases "flat_inputs nrm m sd tr")
  case (Inl e)
  then show ?thesis by (simp add: build_datasets_ALBench_def)
next
  case x1: (Inr x1)
  show ?thesis
  proof (cases "DatasetOnMemory_ALBench_init x1 (labels_array trl) nc trw")
    case (Inl e)
    then show ?thesis
      using DatasetOnMemory_ALBench_init_Inr [of x1 trl nc trw]
      by (auto simp: build_datasets_ALBench_def x1)
  next
    case t1: (Inr t1)
    show ?thesis
    proof (cases "flat_inputs nrm m sd va")
      case (Inl e)
      then show ?thesis by (simp add: build_datasets_ALBench_def x1 t1)
    next
      case x2: (Inr x2)
      show ?thesis
      proof (cases "DatasetOnMemory_ALBench_init x2 (labels_array val) nc vaw")
        case (Inl e)
        then show ?thesis
          using DatasetOnMemory_ALBench_init_Inr [of x2 val nc vaw]
          by (auto simp: build_datasets_ALBench_def x1 t1 x2)
      next
        case t2: (Inr t2)
        show ?thesis
        proof (cases "flat_inputs nrm m sd te")
          case (Inl e)
          then show ?thesis by (simp add: build_datasets_ALBench_def x1 t1 x2 t2)
        next
          case x3: (Inr x3)
          show ?thesis
            using DatasetOnMemory_ALBench_init_Inr [of x1 trl nc trw t1] t1
              DatasetOnMemory_ALBench_init_Inr [of x2 val nc vaw t2] t2
              DatasetOnMemory_ALBench_init_Inr [of x3 tel nc tew d3]
            by (auto simp: build_datasets_ALBench_def x1 x2 x3 split: sum.splits)
        qed
      qed
    qed
  qed
qed

text \<open>
  The object built from what the CIFAR-10 loader returns: an update completes, and
  \<^verbatim>\<open>get_embedding_datasets()\<close> then raises \<^verbatim>\<open>TypeError\<close>.
\<close>

lemma cifar10_like_TypeError:
  "update_embedding_dataset_ALBench 0 demo_get_feature_fn cifar10_like =
     (cifar10_like\<lparr>al_train_emb := Some [0, 1], al_val_emb := Some [2],
        al_test_emb := Some [3]\<rparr>, None)
   \<and> snd (get_embedding_datasets_ALBench demo_nrm
        (cifar10_like\<lparr>al_train_emb := Some [0, 1], al_val_emb := Some [2],
           al_test_emb := Some [3]\<rparr>)) = Inl TypeError"
  by (simp add: update_embedding_dataset_ALBench_def get_embedding_datasets_ALBench_def
      build_datasets_ALBench_def DatasetOnMemory_ALBench_init_def labels_array_def
      realize_labels_def Let_def cifar10_like_def ALDataset_ALBench_init_def
      TransformDataset_ALBench_init_def demo_get_feature_fn_def flat_inputs_def demo_nrm_def)

text \<open>C3 for ALBench: a failure on the validation split keeps the new training embedding.\<close>

lemma no_rollback_ALBench:
  assumes "gf (al_train_dataset s) Train epoch = Inr e"
    and "gf (al_val_dataset s) Val epoch = Inl err"
  shows "update_embedding_dataset_ALBench epoch gf s = (s\<lparr>al_train_emb := Some e\<rparr>, Some err)"
  using assms by (simp add: update_embedding_dataset_ALBench_def)

section \<open>The uninitialized-embedding condition\<close>

text \<open>
  What becomes of a paired validation embedding in LabelBench: numpy stacks the
  two views into one array, whose \<^verbatim>\<open>len\<close> is 2, so with two validation
  labels the constructor's assertion holds whatever the number of rows; and the
  arithmetic raises \<^verbatim>\<open>ValueError\<close> when the views differ in length.
\<close>

lemma paired_val_emb_stacked:
  "snd (get_embedding_datasets demo_nrm
        (demo_ALDataset\<lparr>train_emb := Some (Single [0, 1, 2, 3]),
           val_emb := Some (Paired [0, 1, 2] [3, 4, 5]), test_emb := Some (Single [0, 1])\<rparr>))
     = Inr (\<lparr>dom_X = Flat [- 1, 0, 0, 0], dom_y = [0, 1, 0, 1], dom_n_class = 2,
              dom_return_indices = False\<rparr>,
            \<lparr>dom_X = Stacked [[- 1, 0, 0], [0, 0, 0]], dom_y = [0, 1], dom_n_class = 2,
              dom_return_indices = False\<rparr>,
            \<lparr>dom_X = Flat [- 1, 0], dom_y = [0, 1], dom_n_class = 2,
              dom_return_indices = False\<rparr>)"
  by (simp add: get_embedding_datasets_def build_datasets_def train_inputs_def
      plain_inputs_def flat_inputs_def DatasetOnMemory_init_def same_length_def
      labels_array_def realize_labels_def realize_stat_def first_view_def Let_def demo_defs)

lemma paired_val_emb_unequal_ValueError:
  "snd (get_embedding_datasets demo_nrm
        (demo_ALDataset\<lparr>train_emb := Some (Single [0, 1, 2, 3]),
           val_emb := Some (Paired [0, 1] [3]), test_emb := Some (Single [0, 1])\<rparr>))
     = Inl ValueError"
  by (simp add: get_embedding_datasets_def build_datasets_def train_inputs_def
      plain_inputs_def flat_inputs_def DatasetOnMemory_init_def same_length_def
      labels_array_def realize_labels_def realize_stat_def first_view_def Let_def
      raised_by_numpy_def demo_defs)

text \<open>
  In ALBench a split whose weak labels are not as many as its rows fails the
  constructor's second assertion.
\<close>

lemma misaligned_weak_labels_AssertionError:
  "snd (get_embedding_datasets_ALBench demo_nrm
        (labelled_ALBench\<lparr>al_train_emb := Some [0, 1], al_val_emb := Some [2],
           al_test_emb := Some [3], al_p_train_weak_labels := Labels [1]\<rparr>))
     = Inl (AssertionError ''X and y must have the same length.'')"
  by (simp add: get_embedding_datasets_ALBench_def build_datasets_ALBench_def
      flat_inputs_def DatasetOnMemory_ALBench_init_def labels_array_def realize_labels_def
      realize_stat_def first_view_def Let_def demo_nrm_def labelled_ALBench_def
      ALDataset_ALBench_init_def)

text \<open>
  C2, as the claim states it, fails: on the demonstration object built without
  labels an update completes, and the \<^verbatim>\<open>get_embedding_datasets()\<close> that
  follows raises \<^verbatim>\<open>TypeError\<close> in the constructor of the first
  \<^verbatim>\<open>DatasetOnMemory\<close>, at \<^verbatim>\<open>len(y)\<close>.
\<close>

theorem C2_completed_update_then_TypeError:
  "update_embedding_dataset 0 demo_get_feature False nolabels_ALDataset =
     (nolabels_ALDataset\<lparr>train_emb := Some (Single [0, 1, 2, 3]),
        val_emb := Some (Single [0, 1]), test_emb := Some (Single [0, 1])\<rparr>, None)
   \<and> snd (get_embedding_datasets demo_nrm
        (nolabels_ALDataset\<lparr>train_emb := Some (Single [0, 1, 2, 3]),
           val_emb := Some (Single [0, 1]), test_emb := Some (Single [0, 1])\<rparr>))
     = Inl TypeError"
  by (simp add: update_embedding_dataset_def get_embedding_datasets_def build_datasets_def
      train_inputs_def flat_inputs_def
      DatasetOnMemory_init_def labels_array_def realize_labels_def Let_def
      nolabels_ALDataset_def demo_defs)

text \<open>
  C2, amended. In LabelBench and in ALBench's copy, \<^verbatim>\<open>get_embedding_datasets()\<close>
  raises the uninitialized-embedding exception exactly when one of the three
  embeddings is absent; it does so on a newly constructed object; and after a
  completed \<^verbatim>\<open>update_embedding_dataset\<close> it does not raise that exception.
  After a completed update, with producers and reducers that return when called,
  it returns three datasets exactly when, for each split, the arithmetic of the
  normalization returns an array, the labels of the split, a producer called, are
  an array, and the lengths the constructor compares are equal. In LabelBench these are the length of the labels and the
  length of each view of the training inputs, or of the one array computed for
  the validation and for the test split. In ALBench they are the length of the
  normalized embedding, that of the labels and, where the split has weak labels,
  that of the weak labels. The three datasets then hold these inputs, these
  labels and the number of classes.
\<close>

theorem C2_uninitialized_embedding:
  "(snd (get_embedding_datasets nrm s) = Inl UninitializedEmbedding)
     = (train_emb s = None \<or> val_emb s = None \<or> test_emb s = None)
   \<and> snd (get_embedding_datasets nrm
          (ALDataset_init tr va te trl val tel lt nc names mean std))
       = Inl UninitializedEmbedding
   \<and> (update_embedding_dataset epoch gf us s = (s', None) \<longrightarrow>
        snd (get_embedding_datasets nrm s') \<noteq> Inl UninitializedEmbedding)
   \<and> (update_embedding_dataset epoch gf us s = (s', None)
        \<and> train_emb s' = Some e1 \<and> val_emb s' = Some e2 \<and> test_emb s' = Some e3 \<longrightarrow>
        (snd (get_embedding_datasets nrm s') = Inr (d1, d2, d3)) =
        (\<exists>x1 x2 x3 y1 y2 y3.
           train_inputs nrm (realize_stat (p_train_emb_mean s') e1)
             (realize_stat (p_train_emb_std s') e1) e1 = Inr x1
         \<and> plain_inputs nrm (realize_stat (p_train_emb_mean s') e1)
             (realize_stat (p_train_emb_std s') e1) e2 = Inr x2
         \<and> plain_inputs nrm (realize_stat (p_train_emb_mean s') e1)
             (realize_stat (p_train_emb_std s') e1) e3 = Inr x3
         \<and> realize_labels (p_train_labels s') = Labels y1
         \<and> realize_labels (p_val_labels s') = Labels y2
         \<and> realize_labels (p_test_labels s') = Labels y3
         \<and> same_length x1 y1 \<and> same_length x2 y2 \<and> same_length x3 y3
         \<and> d1 = \<lparr>dom_X = x1, dom_y = y1, dom_n_class = num_classes s',
                  dom_return_indices = False\<rparr>
         \<and> d2 = \<lparr>dom_X = x2, dom_y = y2, dom_n_class = num_classes s',
                  dom_return_indices = False\<rparr>
         \<and> d3 = \<lparr>dom_X = x3, dom_y = y3, dom_n_class = num_classes s',
                  dom_return_indices = False\<rparr>))
   \<and> (snd (get_embedding_datasets_ALBench nrm t) = Inl UninitializedEmbedding)
     = (al_train_emb t = None \<or> al_val_emb t = None \<or> al_test_emb t = None)
   \<and> snd (get_embedding_datasets_ALBench nrm
          (ALDataset_ALBench_init atr ava ate atrl aval atel alt anc anames amean astd
             atrw avaw atew))
       = Inl UninitializedEmbedding
   \<and> (update_embedding_dataset_ALBench epoch gfn t = (t', None) \<longrightarrow>
        snd (get_embedding_datasets_ALBench nrm t') \<noteq> Inl UninitializedEmbedding)
   \<and> (update_embedding_dataset_ALBench epoch gfn t = (t', None)
        \<and> al_train_emb t' = Some a1 \<and> al_val_emb t' = Some a2 \<and> al_test_emb t' = Some a3
        \<longrightarrow>
        (snd (get_embedding_datasets_ALBench nrm t') = Inr (c1, c2, c3)) =
        (\<exists>x1 x2 x3 y1 y2 y3.
           flat_inputs nrm (realize_stat (al_p_train_emb_mean t') (Single a1))
             (realize_stat (al_p_train_emb_std t') (Single a1)) a1 = Inr x1
         \<and> flat_inputs nrm (realize_stat (al_p_train_emb_mean t') (Single a1))
             (realize_stat (al_p_train_emb_std t') (Single a1)) a2 = Inr x2
         \<and> flat_inputs nrm (realize_stat (al_p_train_emb_mean t') (Single a1))
             (realize_stat (al_p_train_emb_std t') (Single a1)) a3 = Inr x3
         \<and> realize_labels (al_p_train_labels t') = Labels y1
         \<and> realize_labels (al_p_val_labels t') = Labels y2
         \<and> realize_labels (al_p_test_labels t') = Labels y3
         \<and> length x1 = length y1 \<and> length x2 = length y2 \<and> length x3 = length y3
         \<and> (realize_labels (al_p_train_weak_labels t') = NoLabels
              \<or> (\<exists>ms. realize_labels (al_p_train_weak_labels t') = Labels ms
                     \<and> length x1 = length ms))
         \<and> (realize_labels (al_p_val_weak_labels t') = NoLabels
              \<or> (\<exists>ms. realize_labels (al_p_val_weak_labels t') = Labels ms
                     \<and> length x2 = length ms))
         \<and> (realize_labels (al_p_test_weak_labels t') = NoLabels
              \<or> (\<exists>ms. realize_labels (al_p_test_weak_labels t') = Labels ms
                     \<and> length x3 = length ms))
         \<and> c1 = \<lparr>al_X = x1, al_y = y1, al_n_class = al_num_classes t',
                  al_meta_data = labels_array (realize_labels (al_p_train_weak_labels t'))\<rparr>
         \<and> c2 = \<lparr>al_X = x2, al_y = y2, al_n_class = al_num_classes t',
                  al_meta_data = labels_array (realize_labels (al_p_val_weak_labels t'))\<rparr>
         \<and> c3 = \<lparr>al_X = x3, al_y = y3, al_n_class = al_num_classes t',
                  al_meta_data = labels_array (realize_labels (al_p_test_weak_labels t'))\<rparr>))"
proof (intro conjI impI)
  show "(snd (get_embedding_datasets nrm s) = Inl UninitializedEmbedding)
     = (train_emb s = None \<or> val_emb s = None \<or> test_emb s = None)"
  proof (cases "train_emb s = None \<or> val_emb s = None \<or> test_emb s = None")
    case True
    then show ?thesis by (simp add: get_embedding_datasets_absent)
  next
    case False
    then obtain x y z where "train_emb s = Some x" "val_emb s = Some y" "test_emb s = Some z"
      by auto
    then show ?thesis
      by (simp add: get_embedding_datasets_present build_datasets_not_uninitialized)
  qed
next
  show "snd (get_embedding_datasets nrm
          (ALDataset_init tr va te trl val tel lt nc names mean std))
       = Inl UninitializedEmbedding"
    by (simp add: get_embedding_datasets_def ALDataset_init_def)
next
  assume "update_embedding_dataset epoch gf us s = (s', None)"
  from update_embedding_dataset_completed [OF this]
  obtain x y z where "train_emb s' = Some x" "val_emb s' = Some y" "test_emb s' = Some z"
    by auto
  then show "snd (get_embedding_datasets nrm s') \<noteq> Inl UninitializedEmbedding"
    by (simp add: get_embedding_datasets_present build_datasets_not_uninitialized)
next
  assume "update_embedding_dataset epoch gf us s = (s', None)
        \<and> train_emb s' = Some e1 \<and> val_emb s' = Some e2 \<and> test_emb s' = Some e3"
  then have embs: "train_emb s' = Some e1" "val_emb s' = Some e2" "test_emb s' = Some e3"
    by simp_all
  show "(snd (get_embedding_datasets nrm s') = Inr (d1, d2, d3)) =
        (\<exists>x1 x2 x3 y1 y2 y3.
           train_inputs nrm (realize_stat (p_train_emb_mean s') e1)
             (realize_stat (p_train_emb_std s') e1) e1 = Inr x1
         \<and> plain_inputs nrm (realize_stat (p_train_emb_mean s') e1)
             (realize_stat (p_train_emb_std s') e1) e2 = Inr x2
         \<and> plain_inputs nrm (realize_stat (p_train_emb_mean s') e1)
             (realize_stat (p_train_emb_std s') e1) e3 = Inr x3
         \<and> realize_labels (p_train_labels s') = Labels y1
         \<and> realize_labels (p_val_labels s') = Labels y2
         \<and> realize_labels (p_test_labels s') = Labels y3
         \<and> same_length x1 y1 \<and> same_length x2 y2 \<and> same_length x3 y3
         \<and> d1 = \<lparr>dom_X = x1, dom_y = y1, dom_n_class = num_classes s',
                  dom_return_indices = False\<rparr>
         \<and> d2 = \<lparr>dom_X = x2, dom_y = y2, dom_n_class = num_classes s',
                  dom_return_indices = False\<rparr>
         \<and> d3 = \<lparr>dom_X = x3, dom_y = y3, dom_n_class = num_classes s',
                  dom_return_indices = False\<rparr>)"
    by (simp only: get_embedding_datasets_present [OF embs] snd_conv build_datasets_Inr)
next
  show "(snd (get_embedding_datasets_ALBench nrm t) = Inl UninitializedEmbedding)
     = (al_train_emb t = None \<or> al_val_emb t = None \<or> al_test_emb t = None)"
    by (rule uninitialized_embedding_ALBench)
next
  show "snd (get_embedding_datasets_ALBench nrm
          (ALDataset_ALBench_init atr ava ate atrl aval atel alt anc anames amean astd
             atrw avaw atew))
       = Inl UninitializedEmbedding"
    by (simp add: get_embedding_datasets_ALBench_def ALDataset_ALBench_init_def)
next
  assume "update_embedding_dataset_ALBench epoch gfn t = (t', None)"
  from update_embedding_dataset_ALBench_completed [OF this]
  have "al_train_emb t' \<noteq> None \<and> al_val_emb t' \<noteq> None \<and> al_test_emb t' \<noteq> None"
    by auto
  then show "snd (get_embedding_datasets_ALBench nrm t') \<noteq> Inl UninitializedEmbedding"
    by (simp add: uninitialized_embedding_ALBench)
next
  assume "update_embedding_dataset_ALBench epoch gfn t = (t', None)
        \<and> al_train_emb t' = Some a1 \<and> al_val_emb t' = Some a2 \<and> al_test_emb t' = Some a3"
  then have embs: "al_train_emb t' = Some a1" "al_val_emb t' = Some a2"
      "al_test_emb t' = Some a3"
    by simp_all
  show "(snd (get_embedding_datasets_ALBench nrm t') = Inr (c1, c2, c3)) =
        (\<exists>x1 x2 x3 y1 y2 y3.
           flat_inputs nrm (realize_stat (al_p_train_emb_mean t') (Single a1))
             (realize_stat (al_p_train_emb_std t') (Single a1)) a1 = Inr x1
         \<and> flat_inputs nrm (realize_stat (al_p_train_emb_mean t') (Single a1))
             (realize_stat (al_p_train_emb_std t') (Single a1)) a2 = Inr x2
         \<and> flat_inputs nrm (realize_stat (al_p_train_emb_mean t') (Single a1))
             (realize_stat (al_p_train_emb_std t') (Single a1)) a3 = Inr x3
         \<and> realize_labels (al_p_train_labels t') = Labels y1
         \<and> realize_labels (al_p_val_labels t') = Labels y2
         \<and> realize_labels (al_p_test_labels t') = Labels y3
         \<and> length x1 = length y1 \<and> length x2 = length y2 \<and> length x3 = length y3
         \<and> (realize_labels (al_p_train_weak_labels t') = NoLabels
              \<or> (\<exists>ms. realize_labels (al_p_train_weak_labels t') = Labels ms
                     \<and> length x1 = length ms))
         \<and> (realize_labels (al_p_val_weak_labels t') = NoLabels
              \<or> (\<exists>ms. realize_labels (al_p_val_weak_labels t') = Labels ms
                     \<and> length x2 = length ms))
         \<and> (realize_labels (al_p_test_weak_labels t') = NoLabels
              \<or> (\<exists>ms. realize_labels (al_p_test_weak_labels t') = Labels ms
                     \<and> length x3 = length ms))
         \<and> c1 = \<lparr>al_X = x1, al_y = y1, al_n_class = al_num_classes t',
                  al_meta_data = labels_array (realize_labels (al_p_train_weak_labels t'))\<rparr>
         \<and> c2 = \<lparr>al_X = x2, al_y = y2, al_n_class = al_num_classes t',
                  al_meta_data = labels_array (realize_labels (al_p_val_weak_labels t'))\<rparr>
         \<and> c3 = \<lparr>al_X = x3, al_y = y3, al_n_class = al_num_classes t',
                  al_meta_data = labels_array (realize_labels (al_p_test_weak_labels t'))\<rparr>)"
    by (simp only: get_embedding_datasets_ALBench_present [OF embs]
        build_datasets_ALBench_Inr)
qed

text \<open>
  On the demonstration objects an update at epoch 0 completes, and the call that
  follows returns the three datasets of the normalized embeddings.
\<close>

lemma labelled_ALBench_initialized:
  "update_embedding_dataset_ALBench 0 demo_get_feature_fn labelled_ALBench =
     (labelled_ALBench\<lparr>al_train_emb := Some [0, 1], al_val_emb := Some [2],
        al_test_emb := Some [3]\<rparr>, None)"
  by (simp add: update_embedding_dataset_ALBench_def labelled_ALBench_def
      ALDataset_ALBench_init_def TransformDataset_ALBench_init_def demo_get_feature_fn_def)

theorem C2_uninitialized_embedding_witness:
  "update_embedding_dataset 0 demo_get_feature False demo_ALDataset =
     (demo_ALDataset\<lparr>train_emb := Some (Single [0, 1, 2, 3]),
        val_emb := Some (Single [0, 1]), test_emb := Some (Single [0, 1])\<rparr>, None)
   \<and> snd (get_embedding_datasets demo_nrm demo_ALDataset) = Inl UninitializedEmbedding
   \<and> snd (get_embedding_datasets demo_nrm
        (demo_ALDataset\<lparr>train_emb := Some (Single [0, 1, 2, 3]),
           val_emb := Some (Single [0, 1]), test_emb := Some (Single [0, 1])\<rparr>))
       = Inr (\<lparr>dom_X = Flat [- 1, 0, 0, 0], dom_y = [0, 1, 0, 1], dom_n_class = 2,
                dom_return_indices = False\<rparr>,
              \<lparr>dom_X = Flat [- 1, 0], dom_y = [0, 1], dom_n_class = 2,
                dom_return_indices = False\<rparr>,
              \<lparr>dom_X = Flat [- 1, 0], dom_y = [0, 1], dom_n_class = 2,
                dom_return_indices = False\<rparr>)
   \<and> update_embedding_dataset_ALBench 0 demo_get_feature_fn labelled_ALBench =
     (labelled_ALBench\<lparr>al_train_emb := Some [0, 1], al_val_emb := Some [2],
        al_test_emb := Some [3]\<rparr>, None)
   \<and> snd (get_embedding_datasets_ALBench demo_nrm labelled_ALBench)
       = Inl UninitializedEmbedding
   \<and> snd (get_embedding_datasets_ALBench demo_nrm
        (labelled_ALBench\<lparr>al_train_emb := Some [0, 1], al_val_emb := Some [2],
           al_test_emb := Some [3]\<rparr>))
       = Inr (\<lparr>al_X = [0, 0], al_y = [0, 1], al_n_class = 10, al_meta_data = Some [1, 1]\<rparr>,
              \<lparr>al_X = [0], al_y = [0], al_n_class = 10, al_meta_data = None\<rparr>,
              \<lparr>al_X = [1], al_y = [1], al_n_class = 10, al_meta_data = None\<rparr>)"
proof -
  have fields: "p_train_emb_mean demo_ALDataset
        = Reducer (\<lambda>rows. sum_list rows div int (length rows))"
    "p_train_emb_std demo_ALDataset = Reducer (\<lambda>rows. 1 + int (length rows))"
    "p_train_labels demo_ALDataset = Labels [0, 1, 0, 1]"
    "p_val_labels demo_ALDataset = Producer (\<lambda>_. [0, 1])"
    "p_test_labels demo_ALDataset = Labels [0, 1]"
    "num_classes demo_ALDataset = 2"
    "train_emb demo_ALDataset = None"
    by (simp_all add: demo_defs)
  have al_fields: "al_p_train_emb_mean labelled_ALBench
        = Reducer (\<lambda>rows. sum_list rows div int (length rows))"
    "al_p_train_emb_std labelled_ALBench = Reducer (\<lambda>rows. 1 + int (length rows))"
    "al_p_train_labels labelled_ALBench = Labels [0, 1]"
    "al_p_val_labels labelled_ALBench = Producer (\<lambda>_. [0])"
    "al_p_test_labels labelled_ALBench = Labels [1]"
    "al_p_train_weak_labels labelled_ALBench = Labels [1, 1]"
    "al_p_val_weak_labels labelled_ALBench = NoLabels"
    "al_p_test_weak_labels labelled_ALBench = NoLabels"
    "al_num_classes labelled_ALBench = 10"
    "al_train_emb labelled_ALBench = None"
    by (simp_all add: labelled_ALBench_def ALDataset_ALBench_init_def)
  note inst = C2_uninitialized_embedding [where nrm = demo_nrm and s = demo_ALDataset
        and tr = "demo_wrapper []" and va = "demo_wrapper []" and te = "demo_wrapper []"
        and trl = "NoLabels :: nat labels" and val = "NoLabels :: nat labels"
        and tel = "NoLabels :: nat labels" and lt = MULTI_CLASS
        and nc = 2 and names = "[]" and mean = "Stat 0" and std = "Stat 1"
        and epoch = 0 and gf = demo_get_feature and us = False
        and s' = "demo_ALDataset\<lparr>train_emb := Some (Single [0, 1, 2, 3]),
           val_emb := Some (Single [0, 1]), test_emb := Some (Single [0, 1])\<rparr>"
        and ?e1.0 = "Single [0, 1, 2, 3]" and ?e2.0 = "Single [0, 1]"
        and ?e3.0 = "Single [0, 1]"
        and ?d1.0 = "\<lparr>dom_X = Flat [- 1, 0, 0, 0], dom_y = [0, 1, 0, 1], dom_n_class = 2,
                dom_return_indices = False\<rparr>"
        and ?d2.0 = "\<lparr>dom_X = Flat [- 1, 0], dom_y = [0, 1], dom_n_class = 2,
                dom_return_indices = False\<rparr>"
        and ?d3.0 = "\<lparr>dom_X = Flat [- 1, 0], dom_y = [0, 1], dom_n_class = 2,
                dom_return_indices = False\<rparr>"
        and t = labelled_ALBench
        and atr = "TransformDataset_ALBench_init [(0 :: nat, 0 :: nat, [] :: unit list)]
                     None None False"
        and ava = "TransformDataset_ALBench_init [(0 :: nat, 0 :: nat, [] :: unit list)]
                     None None False"
        and ate = "TransformDataset_ALBench_init [(0 :: nat, 0 :: nat, [] :: unit list)]
                     None None False"
        and atrl = "NoLabels :: nat labels" and aval = "NoLabels :: nat labels"
        and atel = "NoLabels :: nat labels" and alt = MULTI_CLASS and anc = 10
        and anames = "[]" and amean = "Stat 0" and astd = "Stat 1"
        and atrw = "NoLabels :: nat labels" and avaw = "NoLabels :: nat labels"
        and atew = "NoLabels :: nat labels"
        and gfn = demo_get_feature_fn
        and t' = "labelled_ALBench\<lparr>al_train_emb := Some [0, 1], al_val_emb := Some [2],
           al_test_emb := Some [3]\<rparr>"
        and ?a1.0 = "[0, 1]" and ?a2.0 = "[2]" and ?a3.0 = "[3]"
        and ?c1.0 = "\<lparr>al_X = [0, 0], al_y = [0, 1], al_n_class = 10,
                al_meta_data = Some [1, 1]\<rparr>"
        and ?c2.0 = "\<lparr>al_X = [0], al_y = [0], al_n_class = 10, al_meta_data = None\<rparr>"
        and ?c3.0 = "\<lparr>al_X = [1], al_y = [1], al_n_class = 10, al_meta_data = None\<rparr>"]
  have un: "snd (get_embedding_datasets demo_nrm demo_ALDataset) = Inl UninitializedEmbedding"
    using inst [THEN conjunct1] by (simp add: fields)
  have res: "snd (get_embedding_datasets demo_nrm
        (demo_ALDataset\<lparr>train_emb := Some (Single [0, 1, 2, 3]),
           val_emb := Some (Single [0, 1]), test_emb := Some (Single [0, 1])\<rparr>))
       = Inr (\<lparr>dom_X = Flat [- 1, 0, 0, 0], dom_y = [0, 1, 0, 1], dom_n_class = 2,
                dom_return_indices = False\<rparr>,
              \<lparr>dom_X = Flat [- 1, 0], dom_y = [0, 1], dom_n_class = 2,
                dom_return_indices = False\<rparr>,
              \<lparr>dom_X = Flat [- 1, 0], dom_y = [0, 1], dom_n_class = 2,
                dom_return_indices = False\<rparr>)"
    apply (rule inst [THEN conjunct2, THEN conjunct2, THEN conjunct2, THEN conjunct1,
          THEN mp, THEN iffD2])
     apply (simp add: demo_initialized)
    apply (simp add: fields train_inputs_def plain_inputs_def flat_inputs_def demo_nrm_def
        realize_stat_def realize_labels_def same_length_def first_view_def)
    done
  have al_un: "snd (get_embedding_datasets_ALBench demo_nrm labelled_ALBench)
       = Inl UninitializedEmbedding"
    using inst [THEN conjunct2, THEN conjunct2, THEN conjunct2, THEN conjunct2,
        THEN conjunct1]
    by (simp add: al_fields)
  have al_res: "snd (get_embedding_datasets_ALBench demo_nrm
        (labelled_ALBench\<lparr>al_train_emb := Some [0, 1], al_val_emb := Some [2],
           al_test_emb := Some [3]\<rparr>))
       = Inr (\<lparr>al_X = [0, 0], al_y = [0, 1], al_n_class = 10, al_meta_data = Some [1, 1]\<rparr>,
              \<lparr>al_X = [0], al_y = [0], al_n_class = 10, al_meta_data = None\<rparr>,
              \<lparr>al_X = [1], al_y = [1], al_n_class = 10, al_meta_data = None\<rparr>)"
    apply (rule inst [THEN conjunct2, THEN conjunct2, THEN conjunct2, THEN conjunct2,
          THEN conjunct2, THEN conjunct2, THEN conjunct2, THEN mp, THEN iffD2])
     apply (simp add: labelled_ALBench_initialized)
    apply (simp add: al_fields flat_inputs_def demo_nrm_def realize_stat_def
        realize_labels_def labels_array_def first_view_def)
    done
  show ?thesis
    using demo_initialized labelled_ALBench_initialized un res al_un al_res by (intro conjI)
qed

section \<open>Properties of the tracker as an array object\<close>

lemma labeled_idxs_ref_eq:
  "labeled_idxs_ref s h =
     (lim h, \<lparr>cells = (cells h)(lim h :=
                 (case p_labeled_idxs s of None \<Rightarrow> Array0d_None | Some r \<Rightarrow> cells h r)),
              lim = Suc (lim h)\<rparr>)"
  by (simp add: labeled_idxs_ref_def alloc_def)

lemma labeled_idxs_ref_returns:
  "cells (snd (labeled_idxs_ref s h)) (fst (labeled_idxs_ref s h)) = labeled_idxs_read s h"
  by (simp add: labeled_idxs_read_def split: prod.splits)

text \<open>
  The array that \<^verbatim>\<open>labeled_idxs\<close> returns is at a reference the store had not
  handed out, so it is not the tracker; building it changes no array there was, and
  a write into it leaves the tracker's contents and the tracker's reference valid.
\<close>

lemma labeled_idxs_ref_fresh:
  assumes "tracker_allocated s h"
  shows "p_labeled_idxs s \<noteq> Some (fst (labeled_idxs_ref s h))"
  using assms
  by (auto simp: tracker_allocated_def labeled_idxs_ref_eq split: option.splits)

lemma labeled_idxs_ref_keeps_cells:
  "r < lim h \<Longrightarrow> cells (snd (labeled_idxs_ref s h)) r = cells h r"
  by (simp add: labeled_idxs_ref_eq)

lemma labeled_idxs_ref_keeps_tracker:
  assumes "tracker_allocated s h"
  shows "tracker_contents s (snd (labeled_idxs_ref s h)) = tracker_contents s h"
  using assms
  by (auto simp: tracker_contents_def tracker_allocated_def labeled_idxs_ref_eq
      split: option.splits)

lemma write_returned_keeps_tracker:
  assumes "tracker_allocated s h"
  shows "tracker_contents s (write_array (fst (labeled_idxs_ref s h)) a
            (snd (labeled_idxs_ref s h))) = tracker_contents s h"
  using assms
  by (auto simp: tracker_contents_def tracker_allocated_def labeled_idxs_ref_eq
      write_array_def split: option.splits)

lemma write_returned_allocated:
  assumes "tracker_allocated s h"
  shows "tracker_allocated s (write_array (fst (labeled_idxs_ref s h)) a
            (snd (labeled_idxs_ref s h)))"
  using assms
  by (auto simp: tracker_allocated_def labeled_idxs_ref_eq write_array_def
      split: option.splits)

text \<open>Each reader depends on the store through the tracker's contents only.\<close>

lemma num_labeled_ref_contents:
  "num_labeled_ref s h =
     (case tracker_contents s h of
        None \<Rightarrow> Inl TypeError
      | Some Array0d_None \<Rightarrow> Inl TypeError
      | Some (Array1d d xs) \<Rightarrow> Inr (length xs))"
  by (simp add: num_labeled_ref_def tracker_contents_def split: option.splits)

lemma labeled_idxs_read_contents:
  "labeled_idxs_read s h =
     (case tracker_contents s h of None \<Rightarrow> Array0d_None | Some a \<Rightarrow> a)"
  by (simp add: labeled_idxs_read_def labeled_idxs_ref_eq tracker_contents_def
      split: option.splits)

lemma unlabeled_idxs_read_contents:
  "unlabeled_idxs_read s h =
     (case py_list (labeled_idxs_read s h) of
        Inl e \<Rightarrow> Inl e
      | Inr labeled \<Rightarrow>
          Inr (range_array (filter (\<lambda>i. i \<notin> set labeled)
                              (map int [0 ..< ALDataset_len s]))))"
  by (simp add: unlabeled_idxs_read_def unlabeled_idxs_ref_def labeled_idxs_read_def
      labeled_idxs_ref_eq alloc_def split: sum.splits)

lemma update_labeled_idxs_ref_contents:
  assumes "tracker_allocated s h"
  shows "tracker_contents (fst (fst (update_labeled_idxs_ref new (s, h))))
      (snd (fst (update_labeled_idxs_ref new (s, h)))) =
     (case tracker_contents s h of
        None \<Rightarrow> Some (as_object (np_array_list new))
      | Some (Array1d d old) \<Rightarrow>
          Some (as_object (np_concatenate1 (d, old) (np_array_list new)))
      | Some Array0d_None \<Rightarrow> Some Array0d_None)"
  using assms
  by (auto simp: update_labeled_idxs_ref_def tracker_contents_def tracker_allocated_def
      alloc_def np_concatenate_def as_object_def split: option.splits idx_array.splits)

text \<open>
  The tracker's reference is one the store handed out: so it is on a new object,
  and so it stays under allocation, under any write and under an update.
\<close>

lemma tracker_allocated_init:
  "tracker_allocated (ALDataset_init tr va te trl val tel lt nc names mean std) h"
  by (simp add: tracker_allocated_def ALDataset_init_def)

lemma tracker_allocated_alloc:
  "tracker_allocated s h \<Longrightarrow> tracker_allocated s (snd (alloc a h))"
  by (auto simp: tracker_allocated_def alloc_def split: option.splits)

lemma tracker_allocated_write:
  "tracker_allocated s h \<Longrightarrow> tracker_allocated s (write_array r a h)"
  by (simp add: tracker_allocated_def write_array_def split: option.splits)

lemma update_labeled_idxs_ref_allocated:
  assumes "tracker_allocated s h"
  shows "tracker_allocated (fst (fst (update_labeled_idxs_ref new (s, h))))
      (snd (fst (update_labeled_idxs_ref new (s, h))))"
  using assms
  by (auto simp: update_labeled_idxs_ref_def tracker_allocated_def
      alloc_def np_concatenate_def split: option.splits idx_array.splits)

text \<open>
  The methods on the store compute what the methods on values compute, and an
  update keeps the two representations related, so the theorems about values
  hold of the objects in a store as well.
\<close>

lemma tracker_rel_readers:
  assumes "tracker_rel sv sr h"
  shows "num_labeled_ref sr h = num_labeled sv"
    and "Inr (labeled_idxs_read sr h) = labeled_idxs sv"
    and "unlabeled_idxs_read sr h = unlabeled_idxs sv"
proof -
  from assms have c: "tracker_contents sr h = map_option as_object (p_labeled_idxs sv)"
    and l: "ALDataset_len sr = ALDataset_len sv"
    by (simp_all add: tracker_rel_def)
  show "num_labeled_ref sr h = num_labeled sv"
    by (simp add: num_labeled_ref_contents c num_labeled_def as_object_def
        split: option.splits)
  show r: "Inr (labeled_idxs_read sr h) = labeled_idxs sv"
    by (simp add: labeled_idxs_read_contents c labeled_idxs_def np_array_def as_object_def
        split: option.splits prod.splits)
  show "unlabeled_idxs_read sr h = unlabeled_idxs sv"
    by (simp add: unlabeled_idxs_read_contents unlabeled_idxs_def r [symmetric] l
        split: sum.splits)
qed

lemma tracker_rel_update:
  assumes "tracker_rel sv sr h"
  shows "snd (update_labeled_idxs_ref new (sr, h)) = None
    \<and> tracker_rel (update_labeled_idxs new sv)
        (fst (fst (update_labeled_idxs_ref new (sr, h))))
        (snd (fst (update_labeled_idxs_ref new (sr, h))))"
proof -
  from assms have a: "tracker_allocated sr h"
    and c: "tracker_contents sr h = map_option as_object (p_labeled_idxs sv)"
    and l: "ALDataset_len sr = ALDataset_len sv"
    by (simp_all add: tracker_rel_def)
  have "snd (update_labeled_idxs_ref new (sr, h)) = None"
  proof (cases "p_labeled_idxs sr")
    case None
    then show ?thesis by (simp add: update_labeled_idxs_ref_def alloc_def)
  next
    case (Some r0)
    with c obtain d old where "cells h r0 = Array1d d old"
      by (cases "p_labeled_idxs sv") (auto simp: tracker_contents_def as_object_def)
    with Some a show ?thesis
      by (simp add: update_labeled_idxs_ref_def alloc_def np_concatenate_def
          tracker_allocated_def as_object_def)
  qed
  moreover have "ALDataset_len (fst (fst (update_labeled_idxs_ref new (sr, h)))) = ALDataset_len sr"
    by (simp add: update_labeled_idxs_ref_def ALDataset_len_def alloc_def
        split: option.splits sum.splits)
  moreover have "tracker_contents (fst (fst (update_labeled_idxs_ref new (sr, h))))
      (snd (fst (update_labeled_idxs_ref new (sr, h))))
      = map_option as_object (p_labeled_idxs (update_labeled_idxs new sv))"
    by (cases "p_labeled_idxs sv")
      (simp_all add: update_labeled_idxs_ref_contents [OF a] c update_labeled_idxs_def
        as_object_def)
  ultimately show ?thesis
    using update_labeled_idxs_ref_allocated [OF a, of new]
    by (simp add: tracker_rel_def l len_update)
qed

text \<open>
  C10. \<^verbatim>\<open>labeled_idxs()\<close> returns a reference to a new array that holds what
  the tracker array holds (the zero-dimensional array of \<^verbatim>\<open>None\<close> while there
  is no tracker array): the reference is none the store had handed out, so it is
  not the tracker's, and building the array changes no array there was, the
  tracker's among them. Whatever is then written into the returned array, the
  tracker's contents are as before, and \<^verbatim>\<open>num_labeled()\<close>,
  \<^verbatim>\<open>labeled_idxs()\<close> and \<^verbatim>\<open>unlabeled_idxs()\<close> return after the write what
  they would have returned without it.
\<close>

theorem C10_labeled_idxs_returns_copy:
  assumes "tracker_allocated s h"
  shows "cells (snd (labeled_idxs_ref s h)) (fst (labeled_idxs_ref s h)) = labeled_idxs_read s h
    \<and> labeled_idxs_read s h
        = (case tracker_contents s h of None \<Rightarrow> Array0d_None | Some a \<Rightarrow> a)
    \<and> lim h \<le> fst (labeled_idxs_ref s h)
    \<and> p_labeled_idxs s \<noteq> Some (fst (labeled_idxs_ref s h))
    \<and> (\<forall>r < lim h. cells (snd (labeled_idxs_ref s h)) r = cells h r)
    \<and> tracker_contents s (snd (labeled_idxs_ref s h)) = tracker_contents s h
    \<and> tracker_contents s (write_array (fst (labeled_idxs_ref s h)) a (snd (labeled_idxs_ref s h)))
        = tracker_contents s h
    \<and> num_labeled_ref s (write_array (fst (labeled_idxs_ref s h)) a (snd (labeled_idxs_ref s h)))
        = num_labeled_ref s h
    \<and> labeled_idxs_read s (write_array (fst (labeled_idxs_ref s h)) a (snd (labeled_idxs_ref s h)))
        = labeled_idxs_read s h
    \<and> unlabeled_idxs_read s (write_array (fst (labeled_idxs_ref s h)) a (snd (labeled_idxs_ref s h)))
        = unlabeled_idxs_read s h"
proof -
  let ?h = "write_array (fst (labeled_idxs_ref s h)) a (snd (labeled_idxs_ref s h))"
  have same: "tracker_contents s ?h = tracker_contents s h"
    by (rule write_returned_keeps_tracker [OF assms])
  have n: "num_labeled_ref s ?h = num_labeled_ref s h"
    by (simp only: num_labeled_ref_contents same)
  have l: "labeled_idxs_read s ?h = labeled_idxs_read s h"
    by (simp only: labeled_idxs_read_contents same)
  have u: "unlabeled_idxs_read s ?h = unlabeled_idxs_read s h"
    by (simp only: unlabeled_idxs_read_contents l)
  have f: "lim h \<le> fst (labeled_idxs_ref s h)"
    by (simp add: labeled_idxs_ref_eq)
  have k: "\<forall>r < lim h. cells (snd (labeled_idxs_ref s h)) r = cells h r"
    by (simp add: labeled_idxs_ref_keeps_cells)
  show ?thesis
    using same n l u f k labeled_idxs_ref_returns [of s h] labeled_idxs_read_contents [of s h]
      labeled_idxs_ref_fresh [OF assms] labeled_idxs_ref_keeps_tracker [OF assms]
    by (intro conjI)
qed

text \<open>
  In the demonstration the tracker \<open>[1, 3, 1]\<close> sits in cell 0, the returned copy in
  cell 1, and the caller overwrites the copy with \<open>[9, 9, 9]\<close>.
\<close>

theorem C10_labeled_idxs_returns_copy_witness:
  "tracker_allocated (fst (fst (update_labeled_idxs_ref [1, 3, 1] (demo_ALDataset_ref, empty_store))))
     (snd (fst (update_labeled_idxs_ref [1, 3, 1] (demo_ALDataset_ref, empty_store))))
   \<and> fst (fst (update_labeled_idxs_ref [1, 3, 1] (demo_ALDataset_ref, empty_store)))
       = demo_ALDataset_ref\<lparr>p_labeled_idxs := Some 0\<rparr>
   \<and> labeled_idxs_ref (demo_ALDataset_ref\<lparr>p_labeled_idxs := Some 0\<rparr>)
        \<lparr>cells = (\<lambda>_. Array0d_None)(0 := Array1d Int64 [1, 3, 1]), lim = 1\<rparr>
       = (1, \<lparr>cells = (\<lambda>_. Array0d_None)(0 := Array1d Int64 [1, 3, 1],
                 1 := Array1d Int64 [1, 3, 1]),
              lim = 2\<rparr>)
   \<and> tracker_contents (demo_ALDataset_ref\<lparr>p_labeled_idxs := Some 0\<rparr>)
        \<lparr>cells = (\<lambda>_. Array0d_None)(0 := Array1d Int64 [1, 3, 1]), lim = 1\<rparr>
       = Some (Array1d Int64 [1, 3, 1])
   \<and> labeled_idxs_read (demo_ALDataset_ref\<lparr>p_labeled_idxs := Some 0\<rparr>)
        \<lparr>cells = (\<lambda>_. Array0d_None)(0 := Array1d Int64 [1, 3, 1]), lim = 1\<rparr>
       = Array1d Int64 [1, 3, 1]
   \<and> num_labeled_ref (demo_ALDataset_ref\<lparr>p_labeled_idxs := Some 0\<rparr>)
        (write_array 1 (Array1d Int64 [9, 9, 9])
          \<lparr>cells = (\<lambda>_. Array0d_None)(0 := Array1d Int64 [1, 3, 1],
             1 := Array1d Int64 [1, 3, 1]),
           lim = 2\<rparr>) = Inr 3
   \<and> labeled_idxs_read (demo_ALDataset_ref\<lparr>p_labeled_idxs := Some 0\<rparr>)
        (write_array 1 (Array1d Int64 [9, 9, 9])
          \<lparr>cells = (\<lambda>_. Array0d_None)(0 := Array1d Int64 [1, 3, 1],
             1 := Array1d Int64 [1, 3, 1]),
           lim = 2\<rparr>) = Array1d Int64 [1, 3, 1]
   \<and> unlabeled_idxs_read (demo_ALDataset_ref\<lparr>p_labeled_idxs := Some 0\<rparr>)
        (write_array 1 (Array1d Int64 [9, 9, 9])
          \<lparr>cells = (\<lambda>_. Array0d_None)(0 := Array1d Int64 [1, 3, 1],
             1 := Array1d Int64 [1, 3, 1]),
           lim = 2\<rparr>) = Inr (Array1d Int64 [0, 2])"
proof -
  have arr: "as_object (np_array_list [1, 3, 1]) = Array1d Int64 [1, 3, 1]"
    by (simp add: np_array_list_int64 fits_int64_def as_object_def)
  have upd: "update_labeled_idxs_ref [1, 3, 1] (demo_ALDataset_ref, empty_store) =
      ((demo_ALDataset_ref\<lparr>p_labeled_idxs := Some 0\<rparr>,
        \<lparr>cells = (\<lambda>_. Array0d_None)(0 := Array1d Int64 [1, 3, 1]), lim = 1\<rparr>), None)"
    by (simp add: update_labeled_idxs_ref_def arr alloc_def empty_store_def
        demo_ALDataset_ref_def ALDataset_init_def)
  have ref: "labeled_idxs_ref (demo_ALDataset_ref\<lparr>p_labeled_idxs := Some 0\<rparr>)
        \<lparr>cells = (\<lambda>_. Array0d_None)(0 := Array1d Int64 [1, 3, 1]), lim = 1\<rparr>
       = (1, \<lparr>cells = (\<lambda>_. Array0d_None)(0 := Array1d Int64 [1, 3, 1],
                 1 := Array1d Int64 [1, 3, 1]),
              lim = 2\<rparr>)"
    by (simp add: labeled_idxs_ref_eq)
  have al: "tracker_allocated (demo_ALDataset_ref\<lparr>p_labeled_idxs := Some 0\<rparr>)
      \<lparr>cells = (\<lambda>_. Array0d_None)(0 := Array1d Int64 [1, 3, 1]), lim = 1\<rparr>"
    by (simp add: tracker_allocated_def)
  have len: "ALDataset_len (demo_ALDataset_ref\<lparr>p_labeled_idxs := Some 0\<rparr>) = 4"
    by (simp add: ALDataset_len_def TransformDataset_len_def demo_ALDataset_ref_def
        ALDataset_init_def demo_wrapper_def TransformDataset_init_def)
  have before: "num_labeled_ref (demo_ALDataset_ref\<lparr>p_labeled_idxs := Some 0\<rparr>)
        \<lparr>cells = (\<lambda>_. Array0d_None)(0 := Array1d Int64 [1, 3, 1]), lim = 1\<rparr> = Inr 3"
    "tracker_contents (demo_ALDataset_ref\<lparr>p_labeled_idxs := Some 0\<rparr>)
        \<lparr>cells = (\<lambda>_. Array0d_None)(0 := Array1d Int64 [1, 3, 1]), lim = 1\<rparr>
       = Some (Array1d Int64 [1, 3, 1])"
    "unlabeled_idxs_read (demo_ALDataset_ref\<lparr>p_labeled_idxs := Some 0\<rparr>)
        \<lparr>cells = (\<lambda>_. Array0d_None)(0 := Array1d Int64 [1, 3, 1]), lim = 1\<rparr>
       = Inr (Array1d Int64 [0, 2])"
    by (simp_all add: num_labeled_ref_def unlabeled_idxs_read_contents labeled_idxs_read_contents
        tracker_contents_def py_list_def len upt_rec range_array_def)
  have after: "labeled_idxs_read (demo_ALDataset_ref\<lparr>p_labeled_idxs := Some 0\<rparr>)
        \<lparr>cells = (\<lambda>_. Array0d_None)(0 := Array1d Int64 [1, 3, 1]), lim = 1\<rparr>
       = Array1d Int64 [1, 3, 1]
   \<and> num_labeled_ref (demo_ALDataset_ref\<lparr>p_labeled_idxs := Some 0\<rparr>)
        (write_array 1 (Array1d Int64 [9, 9, 9])
          \<lparr>cells = (\<lambda>_. Array0d_None)(0 := Array1d Int64 [1, 3, 1],
             1 := Array1d Int64 [1, 3, 1]),
           lim = 2\<rparr>) = Inr 3
   \<and> labeled_idxs_read (demo_ALDataset_ref\<lparr>p_labeled_idxs := Some 0\<rparr>)
        (write_array 1 (Array1d Int64 [9, 9, 9])
          \<lparr>cells = (\<lambda>_. Array0d_None)(0 := Array1d Int64 [1, 3, 1],
             1 := Array1d Int64 [1, 3, 1]),
           lim = 2\<rparr>) = Array1d Int64 [1, 3, 1]
   \<and> unlabeled_idxs_read (demo_ALDataset_ref\<lparr>p_labeled_idxs := Some 0\<rparr>)
        (write_array 1 (Array1d Int64 [9, 9, 9])
          \<lparr>cells = (\<lambda>_. Array0d_None)(0 := Array1d Int64 [1, 3, 1],
             1 := Array1d Int64 [1, 3, 1]),
           lim = 2\<rparr>) = Inr (Array1d Int64 [0, 2])"
    using C10_labeled_idxs_returns_copy [OF al, of "Array1d Int64 [9, 9, 9]"]
    unfolding ref fst_conv snd_conv before option.case by metis
  show ?thesis
    unfolding upd fst_conv snd_conv using al ref before after by blast
qed

section \<open>Properties of the optimizer factory\<close>

lemma get_optimizer_fn_SGD:
  "trainer_config ''trainer_name'' = Some (VStr name) \<Longrightarrow> split_first name \<noteq> ''sklearn''
   \<Longrightarrow> trainer_config ''optim_name'' = Some (VStr ''SGD'')
   \<Longrightarrow> get_optimizer_fn trainer_config =
       (trainer_config(''optim_fn'' \<mapsto>
          Optim_SGD (get_or trainer_config ''wd'' (VInt 0))
            (get_or trainer_config ''nesterov'' (VBool False))
            (get_or trainer_config ''momentum'' (VInt 0))), None)"
  by (simp add: get_optimizer_fn_def Let_def)

lemma get_optimizer_fn_Adam:
  "trainer_config ''trainer_name'' = Some (VStr name) \<Longrightarrow> split_first name \<noteq> ''sklearn''
   \<Longrightarrow> trainer_config ''optim_name'' = Some (VStr ''Adam'')
   \<Longrightarrow> get_optimizer_fn trainer_config =
       (trainer_config(''optim_fn'' \<mapsto>
          (if trainer_config ''betas'' = None
           then Optim_Adam (get_or trainer_config ''wd'' (VInt 0))
           else Optim_Adam_betas (get_or trainer_config ''wd'' (VInt 0)))), None)"
  by (simp add: get_optimizer_fn_def Let_def)

text \<open>
  C9, as the claim states it, fails: for the trainer \<^verbatim>\<open>sklearn_passive\<close> the
  factory does not look at \<^verbatim>\<open>optim_name\<close>. With the unknown name
  \<^verbatim>\<open>RMSprop\<close> it raises nothing and returns the configuration as it was.
\<close>

theorem C9_sklearn_ignores_optim_name:
  "sklearn_config ''optim_name'' = Some (VStr ''RMSprop'')
   \<and> get_optimizer_fn sklearn_config = (sklearn_config, None)"
  by (simp add: get_optimizer_fn_def sklearn_config_def split_first_def)

text \<open>
  C9, amended. When the trainer's name is a string whose part before the first
  underscore is not \<^verbatim>\<open>sklearn\<close>, and \<^verbatim>\<open>optim_name\<close> is present and is
  neither \<^verbatim>\<open>"Adam"\<close> nor \<^verbatim>\<open>"SGD"\<close>, \<^verbatim>\<open>get_optimizer_fn\<close> raises the
  \<^verbatim>\<open>ValueError\<close> that names the value of \<^verbatim>\<open>optim_name\<close> and leaves the
  configuration as it was, so without a new \<^verbatim>\<open>optim_fn\<close> entry. When that
  part of the name is \<^verbatim>\<open>sklearn\<close>, it returns the configuration as it was
  and raises nothing.
\<close>

theorem C9_unknown_optimizer:
  "(trainer_config ''trainer_name'' = Some (VStr name) \<and> split_first name \<noteq> ''sklearn''
      \<and> trainer_config ''optim_name'' = Some v \<and> v \<noteq> VStr ''Adam'' \<and> v \<noteq> VStr ''SGD''
     \<longrightarrow> get_optimizer_fn trainer_config
          = (trainer_config, Some (ValueError_unknown_optimizer v)))
   \<and> (trainer_config ''trainer_name'' = Some (VStr name) \<and> split_first name = ''sklearn''
     \<longrightarrow> get_optimizer_fn trainer_config = (trainer_config, None))"
  by (simp add: get_optimizer_fn_def Let_def)

theorem C9_unknown_optimizer_witness:
  "pytorch_config ''trainer_name'' = Some (VStr ''pytorch_passive'')
   \<and> split_first ''pytorch_passive'' \<noteq> ''sklearn''
   \<and> pytorch_config ''optim_name'' = Some (VStr ''RMSprop'')
   \<and> get_optimizer_fn pytorch_config
       = (pytorch_config, Some (ValueError_unknown_optimizer (VStr ''RMSprop'')))
   \<and> fst (get_optimizer_fn pytorch_config) ''optim_fn'' = None
   \<and> sklearn_config ''trainer_name'' = Some (VStr ''sklearn_passive'')
   \<and> split_first ''sklearn_passive'' = ''sklearn''
   \<and> get_optimizer_fn sklearn_config = (sklearn_config, None)"
  using C9_unknown_optimizer [of pytorch_config "''pytorch_passive''" "VStr ''RMSprop''"]
    C9_unknown_optimizer [of sklearn_config "''sklearn_passive''" "VStr ''RMSprop''"]
  by (simp add: pytorch_config_def sklearn_config_def split_first_def)

end
